theory Spec2Isabelle
  imports Main "HOL-Library.Word"
begin

unbundle bit_operations_syntax

section \<open>Python values used by the firmware parsers\<close>

text \<open>
  The repository holds two parsers of a UEFI firmware volume: the library
  \<^verbatim>\<open>firmware/firmware_utils.py\<close> (driven by \<^verbatim>\<open>parse_uefi.py\<close>) and the
  self-contained tool \<^verbatim>\<open>firmware/extract_fw.py\<close>. Both are embedded here.
  Definitions of the library keep the names \<^verbatim>\<open>Class_method\<close>; definitions of
  \<^verbatim>\<open>extract_fw.py\<close> carry the prefix \<^verbatim>\<open>x_\<close>.

  A \<^verbatim>\<open>bytes\<close> object is a list of 8-bit words, a Python integer is an \<open>int\<close>,
  and every exception the parsers can raise is a value of \<open>py_error\<close>.
\<close>

type_synonym byte = "8 word"

datatype py_error =
    ValueError string
  | StructError
  | IndexError
  | NotImplementedError string
  | LZMAError

text \<open>
  \<^verbatim>\<open>a[i:j]\<close>: both bounds are clamped to the length, a negative bound counts from
  the end. \<^verbatim>\<open>a[i:]\<close> is \<open>py_slice_from\<close>, \<^verbatim>\<open>a[:j]\<close> is \<open>py_slice a 0 j\<close>.
\<close>

definition clamp_index :: "nat \<Rightarrow> int \<Rightarrow> int" where
  "clamp_index n i = (if i < 0 then max 0 (int n + i) else min i (int n))"

definition py_slice :: "'a list \<Rightarrow> int \<Rightarrow> int \<Rightarrow> 'a list" where
  "py_slice xs i j =
     take (nat (clamp_index (length xs) j - clamp_index (length xs) i))
          (drop (nat (clamp_index (length xs) i)) xs)"

definition py_slice_from :: "'a list \<Rightarrow> int \<Rightarrow> 'a list" where
  "py_slice_from xs i = drop (nat (clamp_index (length xs) i)) xs"

text \<open>\<^verbatim>\<open>int.from_bytes(bs, 'little')\<close>; also what \<^verbatim>\<open>struct\<close> reads for \<^verbatim>\<open><H\<close> and \<^verbatim>\<open><Q\<close>.\<close>

fun le_int :: "byte list \<Rightarrow> int" where
  "le_int [] = 0"
| "le_int (b # bs) = uint b + 256 * le_int bs"

text \<open>
  \<^verbatim>\<open>b0 | (b1 << 8) | (b2 << 16)\<close> on three bytes, as both 24-bit size fields are
  assembled in \<^verbatim>\<open>firmware_utils.py\<close>.
\<close>

definition u24 :: "byte \<Rightarrow> byte \<Rightarrow> byte \<Rightarrow> int" where
  "u24 b0 b1 b2 = uint b0 OR push_bit 8 (uint b1) OR push_bit 16 (uint b2)"

text \<open>
  \<^verbatim>\<open>struct.unpack_from(fmt, buf, off)\<close> raises \<^verbatim>\<open>struct.error\<close> unless \<open>sz\<close>
  bytes (the size of \<^verbatim>\<open>fmt\<close>) are available at \<open>off\<close>; the parsers only pass
  offsets that are not negative.
\<close>

definition unpack_fits :: "int \<Rightarrow> 'a list \<Rightarrow> int \<Rightarrow> bool" where
  "unpack_fits sz buf off = (0 \<le> off \<and> off + sz \<le> int (length buf))"

text \<open>
  \<^verbatim>\<open>uuid.UUID(bytes_le=name)\<close> raises \<^verbatim>\<open>ValueError\<close> unless \<open>name\<close> has 16 bytes.
  The UUID is kept as those 16 bytes (the constructor only permutes them), so its
  \<^verbatim>\<open>int\<close> is zero exactly when all 16 bytes are.
\<close>

definition uuid_error :: py_error where
  "uuid_error = ValueError ''bytes_le is not a 16-char string''"

definition zero_guid :: "byte list" where
  "zero_guid = replicate 16 0"

text \<open>\<^verbatim>\<open>lzma.decompress\<close> is the only collaborator outside the repository: a
  parameter \<open>dec\<close> of the model, \<open>None\<close> when it raises \<^verbatim>\<open>LZMAError\<close>.\<close>

type_synonym decompressor = "byte list \<Rightarrow> byte list option"

section \<open>firmware\_utils.py\<close>

definition EFI_FV_SIGNATURE :: "byte list" where
  "EFI_FV_SIGNATURE = [0x5F, 0x46, 0x56, 0x48]"

definition EFI_SECTION_COMPR :: int where
  "EFI_SECTION_COMPR = 0x01"

definition align_up :: "int \<Rightarrow> int \<Rightarrow> int" where
  "align_up x a = (x + a - 1) AND NOT (a - 1)"

subsection \<open>EfiSection\<close>

record EfiSection =
  sec_type :: int
  sec_size :: int
  sec_attrs :: int
  sec_payload :: "byte list"

text \<open>
  \<^verbatim>\<open>EfiSection(raw, file_offset).parse()\<close>. The four reads \<^verbatim>\<open>hdr[0] .. hdr[3]\<close>
  raise \<^verbatim>\<open>IndexError\<close> when \<^verbatim>\<open>hdr = raw[:4]\<close> is shorter than four bytes, and so
  do \<^verbatim>\<open>body[0] .. body[3]\<close> in the compression branch. \<open>file_offset\<close> is only
  logged.
\<close>

definition EfiSection_parse :: "decompressor \<Rightarrow> byte list \<Rightarrow> py_error + EfiSection" where
  "EfiSection_parse dec raw =
     (let hdr = py_slice raw 0 4 in
      if length hdr < 4 then Inl IndexError
      else
        let type = uint (hdr ! 0);
            size = u24 (hdr ! 1) (hdr ! 2) (hdr ! 3);
            attrs = (if length raw > 4 then uint (raw ! 4) else 0);
            body = py_slice raw 4 size
        in
          if type = EFI_SECTION_COMPR \<and> attrs = 0x01 then
            (if length body < 4 then Inl IndexError
             else
               let alg = uint (body ! 0);
                   dsz = u24 (body ! 1) (body ! 2) (body ! 3);
                   comp_data = py_slice_from body 4
               in
                 if alg \<noteq> 0x01
                 then Inl (NotImplementedError ''Only LZMA compression supported'')
                 else (case dec comp_data of
                         None \<Rightarrow> Inl LZMAError
                       | Some p \<Rightarrow>
                           Inr \<lparr>sec_type = type, sec_size = size, sec_attrs = attrs,
                                sec_payload = p\<rparr>))
          else
            Inr \<lparr>sec_type = type, sec_size = size, sec_attrs = attrs, sec_payload = body\<rparr>)"

definition EfiSection_size_padded :: "EfiSection \<Rightarrow> int \<Rightarrow> int" where
  "EfiSection_size_padded sec align = align_up (sec_size sec) align"

subsection \<open>FfsFile\<close>

record FfsFile =
  ffs_guid :: "byte list"
  ffs_type :: int
  ffs_attributes :: int
  ffs_size :: int
  ffs_state :: int
  ffs_data :: "byte list"
  ffs_sections :: "EfiSection list"

definition FfsFile_is_terminator :: "byte list \<Rightarrow> bool" where
  "FfsFile_is_terminator raw = (py_slice raw 0 16 = zero_guid)"

text \<open>
  \<^verbatim>\<open>FfsFile.parse_header\<close>, in the order of its reads: the UUID constructor, the
  \<^verbatim>\<open><BB\<close> unpack at 16, the three indexed bytes of \<^verbatim>\<open>raw[18:21]\<close>, and
  \<^verbatim>\<open>raw[21]\<close>. The result is the record with no data and no sections yet.
\<close>

definition FfsFile_parse_header :: "byte list \<Rightarrow> py_error + FfsFile" where
  "FfsFile_parse_header raw =
     (let name = py_slice raw 0 16 in
      if length name \<noteq> 16 then Inl uuid_error
      else if \<not> unpack_fits 2 raw 16 then Inl StructError
      else
        let size_bytes = py_slice raw 18 21 in
        if length size_bytes < 3 then Inl IndexError
        else if length raw \<le> 21 then Inl IndexError
        else
          Inr \<lparr>ffs_guid = name,
               ffs_type = uint (raw ! 16),
               ffs_attributes = uint (raw ! 17),
               ffs_size = u24 (size_bytes ! 0) (size_bytes ! 1) (size_bytes ! 2),
               ffs_state = uint (raw ! 21),
               ffs_data = [],
               ffs_sections = []\<rparr>)"

text \<open>
  The loop of \<^verbatim>\<open>FfsFile.parse_sections\<close>; \<open>end\<close> is \<^verbatim>\<open>self.size\<close>. A section
  of declared size 0 leaves the offset where it is, so the loop need not return:
  \<open>None\<close> is a run that never ends.
\<close>

partial_function (option) parse_sections_loop ::
  "decompressor \<Rightarrow> byte list \<Rightarrow> int \<Rightarrow> int \<Rightarrow> EfiSection list
     \<Rightarrow> (py_error + EfiSection list) option" where
  "parse_sections_loop dec raw end offset secs =
     (if offset + 4 \<le> end then
        (case EfiSection_parse dec (py_slice raw offset end) of
           Inl e \<Rightarrow> Some (Inl e)
         | Inr sec \<Rightarrow>
             parse_sections_loop dec raw end (offset + EfiSection_size_padded sec 4)
               (secs @ [sec]))
      else Some (Inr secs))"

declare parse_sections_loop.simps [code]

definition FfsFile_parse_sections ::
  "decompressor \<Rightarrow> byte list \<Rightarrow> FfsFile \<Rightarrow> (py_error + FfsFile) option" where
  "FfsFile_parse_sections dec raw f =
     map_option (map_sum id (\<lambda>secs. f\<lparr>ffs_sections := secs\<rparr>))
       (parse_sections_loop dec raw (ffs_size f) 24 (ffs_sections f))"

definition FfsFile_parse :: "decompressor \<Rightarrow> byte list \<Rightarrow> (py_error + FfsFile) option" where
  "FfsFile_parse dec raw =
     (case FfsFile_parse_header raw of
        Inl e \<Rightarrow> Some (Inl e)
      | Inr f \<Rightarrow>
          FfsFile_parse_sections dec raw (f\<lparr>ffs_data := py_slice raw 24 (ffs_size f)\<rparr>))"

definition FfsFile_size_padded :: "FfsFile \<Rightarrow> int \<Rightarrow> int" where
  "FfsFile_size_padded f align = align_up (ffs_size f) align"

subsection \<open>FirmwareVolume\<close>

record FirmwareVolume =
  fv_data :: "byte list"
  header_length :: int
  fv_length :: int
  block_map :: "(int \<times> int) list"
  files :: "FfsFile list"

definition FirmwareVolume_init :: "byte list \<Rightarrow> FirmwareVolume" where
  "FirmwareVolume_init d =
     \<lparr>fv_data = d, header_length = 0, fv_length = 0, block_map = [], files = []\<rparr>"

text \<open>
  The block-map loop, the same statement in both parsers: unpack \<^verbatim>\<open><HH\<close> at the
  offset, advance by 4, stop when \<^verbatim>\<open>num == 0 or blen == 0\<close>, else append. The
  unpack raises \<^verbatim>\<open>struct.error\<close> once fewer than four bytes are left, so the loop
  always ends.
\<close>

function read_block_map ::
  "byte list \<Rightarrow> int \<Rightarrow> (int \<times> int) list \<Rightarrow> py_error + (int \<times> int) list" where
  "read_block_map d offset bm =
     (if \<not> unpack_fits 4 d offset then Inl StructError
      else
        let num = le_int (py_slice d offset (offset + 2));
            blen = le_int (py_slice d (offset + 2) (offset + 4))
        in
          if num = 0 \<or> blen = 0 then Inr bm
          else read_block_map d (offset + 4) (bm @ [(num, blen)]))"
  by pat_completeness auto
termination
  by (relation "measure (\<lambda>(d, offset, bm). nat (int (length d) - offset))")
     (auto simp: unpack_fits_def)

declare read_block_map.simps [simp del]

text \<open>
  \<^verbatim>\<open>FirmwareVolume.parse_header\<close>. The format \<^verbatim>\<open><16s16sQ4s\<close> is 44 bytes long;
  \<^verbatim>\<open>fv_len\<close> is its third field (bytes 0x20 to 0x28 of \<^verbatim>\<open>hdr\<close>) and \<^verbatim>\<open>sig\<close> its
  fourth (bytes 0x28 to 0x2C). The header length is then unpacked as \<^verbatim>\<open><H\<close> from
  offset 0x28 of \<^verbatim>\<open>hdr\<close>.
\<close>

definition FirmwareVolume_parse_header :: "FirmwareVolume \<Rightarrow> py_error + FirmwareVolume" where
  "FirmwareVolume_parse_header self =
     (let hdr = py_slice (fv_data self) 0 0x30 in
      if \<not> unpack_fits 44 hdr 0 then Inl StructError
      else
        let fv_len = le_int (py_slice hdr 0x20 0x28);
            sig = py_slice hdr 0x28 0x2C
        in
          if sig \<noteq> EFI_FV_SIGNATURE then Inl (ValueError ''Bad FV signature'')
          else if \<not> unpack_fits 2 hdr 0x28 then Inl StructError
          else
            (case read_block_map (fv_data self) 0x30 (block_map self) of
               Inl e \<Rightarrow> Inl e
             | Inr bm \<Rightarrow>
                 Inr (self\<lparr>fv_length := fv_len,
                           header_length := le_int (py_slice hdr 0x28 0x2A),
                           block_map := bm\<rparr>)))"

text \<open>
  The loop of \<^verbatim>\<open>FirmwareVolume.parse_files\<close>; \<open>end\<close> is \<^verbatim>\<open>self.fv_length\<close>. A file
  of declared size 0 leaves \<open>ptr\<close> where it is, so this loop need not return either.
\<close>

partial_function (option) parse_files_loop ::
  "decompressor \<Rightarrow> byte list \<Rightarrow> int \<Rightarrow> int \<Rightarrow> FfsFile list
     \<Rightarrow> (py_error + FfsFile list) option" where
  "parse_files_loop dec d end ptr fs =
     (if ptr + 24 < end then
        (if FfsFile_is_terminator (py_slice_from d ptr) then Some (Inr fs)
         else
           (case FfsFile_parse dec (py_slice_from d ptr) of
              None \<Rightarrow> None
            | Some (Inl e) \<Rightarrow> Some (Inl e)
            | Some (Inr f) \<Rightarrow>
                parse_files_loop dec d end (ptr + FfsFile_size_padded f 8) (fs @ [f])))
      else Some (Inr fs))"

declare parse_files_loop.simps [code]

definition FirmwareVolume_parse_files ::
  "decompressor \<Rightarrow> FirmwareVolume \<Rightarrow> (py_error + FirmwareVolume) option" where
  "FirmwareVolume_parse_files dec self =
     map_option (map_sum id (\<lambda>fs. self\<lparr>files := fs\<rparr>))
       (parse_files_loop dec (fv_data self) (fv_length self) (header_length self) (files self))"

definition FirmwareVolume_parse ::
  "decompressor \<Rightarrow> FirmwareVolume \<Rightarrow> (py_error + FirmwareVolume) option" where
  "FirmwareVolume_parse dec self =
     (case FirmwareVolume_parse_header self of
        Inl e \<Rightarrow> Some (Inl e)
      | Inr self' \<Rightarrow> FirmwareVolume_parse_files dec self')"

section \<open>extract\_fw.py\<close>

definition EFI_FV_SIG :: "byte list" where
  "EFI_FV_SIG = [0x5F, 0x46, 0x56, 0x48]"

definition FVH_OFFSET :: int where
  "FVH_OFFSET = 0x40"

definition ALIGN :: int where
  "ALIGN = 8"

definition x_align_up :: "int \<Rightarrow> int \<Rightarrow> int" where
  "x_align_up x a = (x + a - 1) AND NOT (a - 1)"

text \<open>
  \<^verbatim>\<open>data.find(sub, start)\<close> for a start that is not negative: the lowest index
  from \<open>start\<close> on at which \<open>sub\<close> occurs, or \<open>-1\<close>.
\<close>

fun find_at :: "byte list \<Rightarrow> byte list \<Rightarrow> int \<Rightarrow> int" where
  "find_at sub [] i = (if sub = [] then i else - 1)"
| "find_at sub (x # xs) i =
     (if take (length sub) (x # xs) = sub then i else find_at sub xs (i + 1))"

definition bytes_find :: "byte list \<Rightarrow> byte list \<Rightarrow> int \<Rightarrow> int" where
  "bytes_find d sub start =
     (if int (length d) < start then - 1 else find_at sub (drop (nat start) d) start)"

subsection \<open>EfiSection\<close>

record x_EfiSection =
  xs_raw :: "byte list"
  xs_offset :: int
  xs_type :: int
  xs_size :: int
  xs_attrs :: int
  xs_payload :: "byte list"

text \<open>\<^verbatim>\<open>EfiSection.__init__\<close>: \<^verbatim>\<open>raw[0]\<close> raises \<^verbatim>\<open>IndexError\<close> on empty input.\<close>

definition x_EfiSection_init :: "byte list \<Rightarrow> int \<Rightarrow> py_error + x_EfiSection" where
  "x_EfiSection_init raw offset =
     (if raw = [] then Inl IndexError
      else
        Inr \<lparr>xs_raw = raw, xs_offset = offset,
             xs_type = uint (raw ! 0),
             xs_size = le_int (py_slice raw 1 4),
             xs_attrs = (if length raw > 4 then uint (raw ! 4) else 0),
             xs_payload = []\<rparr>)"

definition x_EfiSection_parse :: "decompressor \<Rightarrow> x_EfiSection \<Rightarrow> py_error + x_EfiSection" where
  "x_EfiSection_parse dec self =
     (let body = py_slice (xs_raw self) 4 (xs_size self) in
      if xs_type self = 0x01 then
        (if body = [] then Inl IndexError
         else
           let alg = uint (body ! 0) in
           if alg \<noteq> 1 then Inl (NotImplementedError ''Unsupported compression'')
           else
             let dsz = le_int (py_slice body 1 4) in
             (case dec (py_slice_from body 4) of
                None \<Rightarrow> Inl LZMAError
              | Some p \<Rightarrow> Inr (self\<lparr>xs_payload := p\<rparr>)))
      else Inr (self\<lparr>xs_payload := body\<rparr>))"

subsection \<open>FfsFile\<close>

record x_FfsFile =
  xf_raw :: "byte list"
  xf_offset :: int
  xf_guid :: "byte list"
  xf_size :: int
  xf_sections :: "x_EfiSection list"

definition x_FfsFile_init :: "byte list \<Rightarrow> int \<Rightarrow> py_error + x_FfsFile" where
  "x_FfsFile_init raw offset =
     (if length (py_slice raw 0 16) \<noteq> 16 then Inl uuid_error
      else
        Inr \<lparr>xf_raw = raw, xf_offset = offset,
             xf_guid = py_slice raw 0 16,
             xf_size = le_int (py_slice raw 0x12 0x15),
             xf_sections = []\<rparr>)"

text \<open>\<^verbatim>\<open>sec = EfiSection(raw, ptr); sec.parse()\<close>, as the section loop calls them.\<close>

definition x_EfiSection_new_parse ::
  "decompressor \<Rightarrow> byte list \<Rightarrow> int \<Rightarrow> py_error + x_EfiSection" where
  "x_EfiSection_new_parse dec raw offset =
     (case x_EfiSection_init raw offset of
        Inl e \<Rightarrow> Inl e
      | Inr sec \<Rightarrow> x_EfiSection_parse dec sec)"

text \<open>The loop of \<^verbatim>\<open>FfsFile.parse\<close>; \<open>sz\<close> is \<^verbatim>\<open>self.size\<close> and the stride is
  \<^verbatim>\<open>align_up(sec.size, ALIGN)\<close>.\<close>

partial_function (option) x_sections_loop ::
  "decompressor \<Rightarrow> byte list \<Rightarrow> int \<Rightarrow> int \<Rightarrow> x_EfiSection list
     \<Rightarrow> (py_error + x_EfiSection list) option" where
  "x_sections_loop dec raw sz ptr secs =
     (if ptr + 4 \<le> sz then
        (case x_EfiSection_new_parse dec (py_slice_from raw ptr) ptr of
           Inl e \<Rightarrow> Some (Inl e)
         | Inr sec \<Rightarrow>
             x_sections_loop dec raw sz (ptr + x_align_up (xs_size sec) ALIGN)
               (secs @ [sec]))
      else Some (Inr secs))"

declare x_sections_loop.simps [code]

definition x_FfsFile_parse :: "decompressor \<Rightarrow> x_FfsFile \<Rightarrow> (py_error + x_FfsFile) option" where
  "x_FfsFile_parse dec self =
     map_option (map_sum id (\<lambda>secs. self\<lparr>xf_sections := secs\<rparr>))
       (x_sections_loop dec (xf_raw self) (xf_size self) 24 (xf_sections self))"

text \<open>\<^verbatim>\<open>ffs = FfsFile(body, ptr); ffs.parse()\<close>, as the file loop calls them.\<close>

definition x_FfsFile_new_parse ::
  "decompressor \<Rightarrow> byte list \<Rightarrow> int \<Rightarrow> (py_error + x_FfsFile) option" where
  "x_FfsFile_new_parse dec raw offset =
     (case x_FfsFile_init raw offset of
        Inl e \<Rightarrow> Some (Inl e)
      | Inr ffs \<Rightarrow> x_FfsFile_parse dec ffs)"

subsection \<open>FirmwareVolume\<close>

record x_FirmwareVolume =
  x_data :: "byte list"
  x_base :: int
  header_len :: int
  fv_len :: int
  x_block_map :: "(int \<times> int) list"
  x_files :: "x_FfsFile list"

definition x_FirmwareVolume_init :: "byte list \<Rightarrow> x_FirmwareVolume" where
  "x_FirmwareVolume_init d =
     \<lparr>x_data = d, x_base = 0, header_len = 0, fv_len = 0, x_block_map = [], x_files = []\<rparr>"

text \<open>
  \<^verbatim>\<open>FirmwareVolume.parse_header\<close> of \<^verbatim>\<open>extract_fw.py\<close>: the signature is searched
  from \<^verbatim>\<open>FVH_OFFSET\<close> on, \<^verbatim>\<open>hdr\<close> is cut 0x40 bytes before the place found, and the
  same 44-byte format is unpacked from \<^verbatim>\<open>hdr\<close>.
\<close>

definition x_FirmwareVolume_parse_header :: "x_FirmwareVolume \<Rightarrow> py_error + x_FirmwareVolume" where
  "x_FirmwareVolume_parse_header self =
     (let sig_off = bytes_find (x_data self) EFI_FV_SIG FVH_OFFSET in
      if sig_off < 0 then Inl (ValueError ''FV header not found'')
      else
        let hdr = py_slice (x_data self) (sig_off - 0x40) (sig_off + 0x40) in
        if \<not> unpack_fits 44 hdr 0 then Inl StructError
        else
          let fv_len' = le_int (py_slice hdr 0x20 0x28);
              sig = py_slice hdr 0x28 0x2C
          in
            if sig \<noteq> EFI_FV_SIG then Inl (ValueError ''Bad FV signature'')
            else if \<not> unpack_fits 2 hdr 0x28 then Inl StructError
            else
              (case read_block_map (x_data self) (sig_off + 0x4C) (x_block_map self) of
                 Inl e \<Rightarrow> Inl e
               | Inr bm \<Rightarrow>
                   Inr (self\<lparr>fv_len := fv_len',
                             header_len := le_int (py_slice hdr 0x28 0x2A),
                             x_block_map := bm\<rparr>)))"

text \<open>
  The loop of \<^verbatim>\<open>FirmwareVolume.parse_files\<close> of \<^verbatim>\<open>extract_fw.py\<close>; \<open>end\<close> is
  \<^verbatim>\<open>self.fv_len\<close>. The counter \<^verbatim>\<open>idx\<close> is never read.
\<close>

partial_function (option) x_files_loop ::
  "decompressor \<Rightarrow> byte list \<Rightarrow> int \<Rightarrow> int \<Rightarrow> x_FfsFile list
     \<Rightarrow> (py_error + x_FfsFile list) option" where
  "x_files_loop dec d end ptr fs =
     (if ptr + 24 < end then
        (let raw = py_slice d ptr (ptr + 24) in
         if length (py_slice raw 0 16) \<noteq> 16 then Some (Inl uuid_error)
         else if py_slice raw 0 16 = zero_guid then Some (Inr fs)
         else
           let sz = le_int (py_slice raw 0x12 0x15) in
           (case x_FfsFile_new_parse dec (py_slice d ptr (ptr + sz)) ptr of
              None \<Rightarrow> None
            | Some (Inl e) \<Rightarrow> Some (Inl e)
            | Some (Inr ffs) \<Rightarrow>
                x_files_loop dec d end (ptr + x_align_up sz ALIGN) (fs @ [ffs])))
      else Some (Inr fs))"

declare x_files_loop.simps [code]

definition x_FirmwareVolume_parse_files ::
  "decompressor \<Rightarrow> x_FirmwareVolume \<Rightarrow> (py_error + x_FirmwareVolume) option" where
  "x_FirmwareVolume_parse_files dec self =
     map_option (map_sum id (\<lambda>fs. self\<lparr>x_files := fs\<rparr>))
       (x_files_loop dec (x_data self) (fv_len self) (header_len self) (x_files self))"

section \<open>Block maps as sequences of entries\<close>

text \<open>
  The bytes of a block map, cut into consecutive 4-byte
  \<^verbatim>\<open>(num_blocks: u16 LE, block_length: u16 LE)\<close> entries; an incomplete last entry
  is dropped.
\<close>

fun block_entries :: "byte list \<Rightarrow> (int \<times> int) list" where
  "block_entries (a # b # c # d # rest) = (le_int [a, b], le_int [c, d]) # block_entries rest"
| "block_entries _ = []"

text \<open>
  Two readings of where a block map ends. The specification's words: the entries
  that precede the first \<^verbatim>\<open>(0, 0)\<close> entry. The loop's test
  \<^verbatim>\<open>num == 0 or blen == 0\<close>: the entries that precede the first entry with a zero
  field.
\<close>

definition entries_before_zero_pair :: "(int \<times> int) list \<Rightarrow> (int \<times> int) list" where
  "entries_before_zero_pair es = takeWhile (\<lambda>e. e \<noteq> (0, 0)) es"

definition entries_before_zero_field :: "(int \<times> int) list \<Rightarrow> (int \<times> int) list" where
  "entries_before_zero_field es = takeWhile (\<lambda>(num, blen). \<not> (num = 0 \<or> blen = 0)) es"

section \<open>Sample inputs\<close>

text \<open>
  An FFS file record of declared size 44: a 24-byte header, a section of type 0x10
  and size 10 at offset 24 (six payload bytes, two bytes of padding) and a section of
  type 0x20 and size 6 at offset 36.
\<close>

definition sample_file :: "byte list" where
  "sample_file =
     [1, 2, 3, 4, 5, 6, 7, 8, 9, 10, 11, 12, 13, 14, 15, 16,
      0x02, 0x00, 0x2C, 0x00, 0x00, 0xF8, 0x00, 0x00,
      0x10, 0x0A, 0x00, 0x00, 0xAA, 0xBB, 0xCC, 0xDD, 0xEE, 0xFF, 0x00, 0x00,
      0x20, 0x06, 0x00, 0x00, 0x11, 0x22, 0x00, 0x00]"

text \<open>
  A compression section (type 0x01, size 12) whose compression header names
  algorithm 0x02 and an uncompressed size of 4, followed by four data bytes.
\<close>

definition unsupported_section :: "byte list" where
  "unsupported_section = [0x01, 0x0C, 0x00, 0x00, 0x02, 0x04, 0x00, 0x00, 1, 2, 3, 4]"

text \<open>
  A compression section (type 0x01, size 9) with algorithm 0x01 and one byte of
  compressed data.
\<close>

definition lzma_section :: "byte list" where
  "lzma_section = [0x01, 0x09, 0x00, 0x00, 0x01, 0x01, 0x00, 0x00, 0x5D]"

text \<open>
  The minimal volume of the specification's first scenario, 0x40 bytes: zero vector
  and GUID, \<^verbatim>\<open>fv_length = 0x40\<close> at 0x20, \<^verbatim>\<open>_FVH\<close> at 0x28, attributes,
  \<^verbatim>\<open>header_length = 0x30\<close> at 0x30, the block map \<^verbatim>\<open>(1, 0x40), (0, 0)\<close> from 0x32, zeros.
  \<open>bad_sig_fv\<close> is the second scenario: the same bytes with \<^verbatim>\<open>XFVH\<close> at 0x28.
\<close>

definition minimal_fv :: "byte list" where
  "minimal_fv =
     [0, 0, 0, 0, 0, 0, 0, 0, 0, 0, 0, 0, 0, 0, 0, 0,
      0, 0, 0, 0, 0, 0, 0, 0, 0, 0, 0, 0, 0, 0, 0, 0,
      0x40, 0, 0, 0, 0, 0, 0, 0,
      0x5F, 0x46, 0x56, 0x48,
      0, 0, 0, 0,
      0x30, 0x00,
      0x01, 0x00, 0x40, 0x00,
      0x00, 0x00, 0x00, 0x00,
      0, 0, 0, 0, 0, 0]"

definition bad_sig_fv :: "byte list" where
  "bad_sig_fv =
     [0, 0, 0, 0, 0, 0, 0, 0, 0, 0, 0, 0, 0, 0, 0, 0,
      0, 0, 0, 0, 0, 0, 0, 0, 0, 0, 0, 0, 0, 0, 0, 0,
      0x40, 0, 0, 0, 0, 0, 0, 0,
      0x58, 0x46, 0x56, 0x48,
      0, 0, 0, 0,
      0x30, 0x00,
      0x01, 0x00, 0x40, 0x00,
      0x00, 0x00, 0x00, 0x00,
      0, 0, 0, 0, 0, 0]"

text \<open>43 bytes: 0x28 zero bytes and the first three bytes of the signature.\<close>

definition short_fv :: "byte list" where
  "short_fv =
     [0, 0, 0, 0, 0, 0, 0, 0, 0, 0, 0, 0, 0, 0, 0, 0,
      0, 0, 0, 0, 0, 0, 0, 0, 0, 0, 0, 0, 0, 0, 0, 0,
      0, 0, 0, 0, 0, 0, 0, 0,
      0x5F, 0x46, 0x56]"

text \<open>
  152 bytes with \<^verbatim>\<open>_FVH\<close> at 0x30 and at 0x48 and zeros elsewhere: nothing but
  zeros at 0x28.
\<close>

definition moved_sig_fv :: "byte list" where
  "moved_sig_fv =
     [0, 0, 0, 0, 0, 0, 0, 0, 0, 0, 0, 0, 0, 0, 0, 0,
      0, 0, 0, 0, 0, 0, 0, 0, 0, 0, 0, 0, 0, 0, 0, 0,
      0, 0, 0, 0, 0, 0, 0, 0, 0, 0, 0, 0, 0, 0, 0, 0,
      0x5F, 0x46, 0x56, 0x48,
      0, 0, 0, 0, 0, 0, 0, 0, 0, 0, 0, 0, 0, 0, 0, 0, 0, 0, 0, 0,
      0x5F, 0x46, 0x56, 0x48,
      0, 0, 0, 0, 0, 0, 0, 0, 0, 0, 0, 0,
      0, 0, 0, 0, 0, 0, 0, 0, 0, 0, 0, 0, 0, 0, 0, 0,
      0, 0, 0, 0, 0, 0, 0, 0, 0, 0, 0, 0, 0, 0, 0, 0,
      0, 0, 0, 0, 0, 0, 0, 0, 0, 0, 0, 0, 0, 0, 0, 0,
      0, 0, 0, 0, 0, 0, 0, 0, 0, 0, 0, 0, 0, 0, 0, 0]"

text \<open>
  148 bytes with \<^verbatim>\<open>_FVH\<close> at 0x28 and again at 0x40, \<^verbatim>\<open>fv_length = 0x94\<close> at 0x20,
  the number 0x48 at 0x30 and, from 0x8C, the entries \<^verbatim>\<open>(2, 0x100), (0, 0)\<close>.
\<close>

definition double_sig_fv :: "byte list" where
  "double_sig_fv =
     [0, 0, 0, 0, 0, 0, 0, 0, 0, 0, 0, 0, 0, 0, 0, 0,
      0, 0, 0, 0, 0, 0, 0, 0, 0, 0, 0, 0, 0, 0, 0, 0,
      0x94, 0, 0, 0, 0, 0, 0, 0,
      0x5F, 0x46, 0x56, 0x48,
      0, 0, 0, 0,
      0x48, 0x00,
      0, 0, 0, 0, 0, 0, 0, 0, 0, 0, 0, 0, 0, 0,
      0x5F, 0x46, 0x56, 0x48,
      0, 0, 0, 0, 0, 0, 0, 0, 0, 0, 0, 0,
      0, 0, 0, 0, 0, 0, 0, 0, 0, 0, 0, 0, 0, 0, 0, 0,
      0, 0, 0, 0, 0, 0, 0, 0, 0, 0, 0, 0, 0, 0, 0, 0,
      0, 0, 0, 0, 0, 0, 0, 0, 0, 0, 0, 0, 0, 0, 0, 0,
      0, 0, 0, 0, 0, 0, 0, 0, 0, 0, 0, 0,
      0x02, 0x00, 0x00, 0x01,
      0x00, 0x00, 0x00, 0x00]"

text \<open>
  64 bytes: a header with \<^verbatim>\<open>_FVH\<close> at 0x28 and, from 0x30, the entries
  \<^verbatim>\<open>(2, 0x100), (0, 5), (3, 4), (0, 0)\<close>. \<open>empty_block_map_fv\<close> is 52 bytes: the
  same header and the entry \<^verbatim>\<open>(0, 0)\<close> alone.
\<close>

definition block_map_fv :: "byte list" where
  "block_map_fv =
     [0, 0, 0, 0, 0, 0, 0, 0, 0, 0, 0, 0, 0, 0, 0, 0,
      0, 0, 0, 0, 0, 0, 0, 0, 0, 0, 0, 0, 0, 0, 0, 0,
      0x40, 0, 0, 0, 0, 0, 0, 0,
      0x5F, 0x46, 0x56, 0x48,
      0, 0, 0, 0,
      0x02, 0x00, 0x00, 0x01,
      0x00, 0x00, 0x05, 0x00,
      0x03, 0x00, 0x04, 0x00,
      0x00, 0x00, 0x00, 0x00]"

definition empty_block_map_fv :: "byte list" where
  "empty_block_map_fv =
     [0, 0, 0, 0, 0, 0, 0, 0, 0, 0, 0, 0, 0, 0, 0, 0,
      0, 0, 0, 0, 0, 0, 0, 0, 0, 0, 0, 0, 0, 0, 0, 0,
      0x34, 0, 0, 0, 0, 0, 0, 0,
      0x5F, 0x46, 0x56, 0x48,
      0, 0, 0, 0,
      0x00, 0x00, 0x00, 0x00]"

text \<open>
  Volumes whose file area starts where the library looks for it. \<open>fv_header l0 l1\<close>
  is 52 bytes: \<^verbatim>\<open>fv_length\<close> with the low bytes \<open>l0\<close>, \<open>l1\<close> at 0x20, \<^verbatim>\<open>_FVH\<close> at
  0x28 and a zero entry at 0x30. \<open>padded_fv l0 l1 area\<close> pads it with zeros up to
  offset 18015 and puts \<open>area\<close> there.
\<close>

definition fv_header :: "byte \<Rightarrow> byte \<Rightarrow> byte list" where
  "fv_header l0 l1 =
     [0, 0, 0, 0, 0, 0, 0, 0, 0, 0, 0, 0, 0, 0, 0, 0,
      0, 0, 0, 0, 0, 0, 0, 0, 0, 0, 0, 0, 0, 0, 0, 0,
      l0, l1, 0, 0, 0, 0, 0, 0,
      0x5F, 0x46, 0x56, 0x48,
      0, 0, 0, 0,
      0, 0, 0, 0]"

definition padded_fv :: "byte \<Rightarrow> byte \<Rightarrow> byte list \<Rightarrow> byte list" where
  "padded_fv l0 l1 area = fv_header l0 l1 @ replicate 17963 0 @ area"

text \<open>A file record of declared size 24: a header and an empty body.\<close>

definition exact_fit_record :: "byte list" where
  "exact_fit_record =
     [1, 2, 3, 4, 5, 6, 7, 8, 9, 10, 11, 12, 13, 14, 15, 16,
      0x02, 0x00, 0x18, 0x00, 0x00, 0xF8, 0x00, 0x00]"



section \<open>Slices and integers\<close>

lemma clamp_index_nonneg: "0 \<le> i \<Longrightarrow> clamp_index n i = min i (int n)"
  by (simp add: clamp_index_def)

lemma py_slice_nonneg:
  "0 \<le> i \<Longrightarrow> 0 \<le> j \<Longrightarrow> py_slice xs i j = take (nat j - nat i) (drop (nat i) xs)"
  by (cases "nat i \<le> length xs")
     (auto simp: py_slice_def clamp_index_nonneg min_def nat_diff_distrib')

lemma py_slice_from_nonneg: "0 \<le> i \<Longrightarrow> py_slice_from xs i = drop (nat i) xs"
  by (auto simp: py_slice_from_def clamp_index_nonneg min_def)

lemma u24_nonneg: "0 \<le> u24 a b c"
  by (simp add: u24_def)

lemma le_int_nonneg: "0 \<le> le_int bs"
  by (induction bs) auto

lemma py_slice_is_take_drop:
  assumes "0 \<le> off"
  shows "\<exists>k. py_slice xs off e = take k (drop (nat off) xs)"
proof (cases "off \<le> int (length xs)")
  case True
  with assms have "clamp_index (length xs) off = off"
    by (simp add: clamp_index_nonneg)
  then show ?thesis
    unfolding py_slice_def by auto
next
  case False
  with assms have "clamp_index (length xs) off = int (length xs)"
    by (simp add: clamp_index_nonneg)
  moreover from False have "drop (nat off) xs = []" by simp
  ultimately have "py_slice xs off e = take 0 (drop (nat off) xs)"
    unfolding py_slice_def by simp
  then show ?thesis ..
qed

text \<open>
  The body \<^verbatim>\<open>raw[4:sz]\<close> of a section is the file's bytes from \<open>off + 4\<close> to
  \<open>off + sz\<close>: for the library's \<^verbatim>\<open>raw = fraw[off:e]\<close> when the declared size is within
  \<open>e - off\<close>, for \<^verbatim>\<open>raw = fraw[off:]\<close> of \<^verbatim>\<open>extract_fw.py\<close> always.
\<close>

lemma section_body_in_file:
  assumes "0 \<le> off" and "4 \<le> sz" and "sz \<le> e - off"
  shows "py_slice (py_slice fraw off e) 4 sz = py_slice fraw (off + 4) (off + sz)"
proof -
  have e: "0 \<le> e" using assms by linarith
  have m: "min (nat sz - 4) (nat e - (nat off + 4)) = nat sz - 4"
    using assms by linarith
  have "py_slice (py_slice fraw off e) 4 sz =
        take (nat sz - 4) (drop 4 (take (nat e - nat off) (drop (nat off) fraw)))"
    using assms e by (simp add: py_slice_nonneg)
  also have "\<dots> = take (nat sz - 4) (drop (nat off + 4) fraw)"
    by (simp add: drop_take m add.commute)
  also have "\<dots> = py_slice fraw (off + 4) (off + sz)"
    using assms by (simp add: py_slice_nonneg nat_add_distrib)
  finally show ?thesis .
qed

lemma section_body_in_tail:
  assumes "0 \<le> off" and "4 \<le> sz"
  shows "py_slice (py_slice_from fraw off) 4 sz = py_slice fraw (off + 4) (off + sz)"
proof -
  have "py_slice (py_slice_from fraw off) 4 sz =
        take (nat sz - 4) (drop 4 (drop (nat off) fraw))"
    using assms by (simp add: py_slice_nonneg py_slice_from_nonneg)
  also have "\<dots> = take (nat sz - 4) (drop (nat off + 4) fraw)"
    by (simp add: add.commute)
  also have "\<dots> = py_slice fraw (off + 4) (off + sz)"
    using assms by (simp add: py_slice_nonneg nat_add_distrib)
  finally show ?thesis .
qed

text \<open>A slice of a slice, in the offsets of the outer bytes.\<close>

lemma py_slice_of_tail:
  assumes "0 \<le> p" and "0 \<le> i" and "0 \<le> j"
  shows "py_slice (py_slice_from d p) i j = py_slice d (p + i) (p + j)"
proof -
  have "py_slice (py_slice_from d p) i j = take (nat j - nat i) (drop (nat i) (drop (nat p) d))"
    using assms by (simp add: py_slice_nonneg py_slice_from_nonneg)
  also have "\<dots> = take (nat (p + j) - nat (p + i)) (drop (nat (p + i)) d)"
    using assms by (simp add: nat_add_distrib add.commute)
  also have "\<dots> = py_slice d (p + i) (p + j)"
    using assms by (simp add: py_slice_nonneg)
  finally show ?thesis .
qed

lemma py_slice_of_slice:
  assumes "0 \<le> p" and "0 \<le> i" and "0 \<le> j" and "j \<le> n"
  shows "py_slice (py_slice d p (p + n)) i j = py_slice d (p + i) (p + j)"
proof -
  have n: "0 \<le> n" using assms by linarith
  have m: "min (nat j - nat i) (nat n - nat i) = nat j - nat i"
    using assms by linarith
  have "py_slice (py_slice d p (p + n)) i j =
        take (nat j - nat i) (drop (nat i) (take (nat n) (drop (nat p) d)))"
    using assms n by (simp add: py_slice_nonneg nat_add_distrib)
  also have "\<dots> = take (nat j - nat i) (drop (nat p + nat i) d)"
    by (simp add: drop_take m add.commute)
  also have "\<dots> = py_slice d (p + i) (p + j)"
    using assms by (simp add: py_slice_nonneg nat_add_distrib)
  finally show ?thesis .
qed

lemma py_slice_prefix:
  assumes "0 \<le> i" and "0 \<le> j" and "nat j \<le> n"
  shows "py_slice d i j = py_slice (take n d) i j"
proof -
  have "min (nat j - nat i) (n - nat i) = nat j - nat i"
    using assms by simp
  then show ?thesis
    using assms by (simp add: py_slice_nonneg drop_take)
qed

lemma zero_guid_bytes: "zero_guid = [0, 0, 0, 0, 0, 0, 0, 0, 0, 0, 0, 0, 0, 0, 0, 0]"
  by (simp add: zero_guid_def eval_nat_numeral)

text \<open>
  The library assembles the 24-bit size with shifts and \<^verbatim>\<open>|\<close>, \<^verbatim>\<open>extract_fw.py\<close> with
  \<^verbatim>\<open>int.from_bytes\<close>: the same number.
\<close>

lemma byte_and_shift: "uint (a :: byte) AND push_bit 8 (x :: int) = 0"
  by (rule bit_eqI) (auto simp: bit_simps dest: bit_imp_le_length)

lemma u24_le_int: "u24 b0 b1 b2 = le_int [b0, b1, b2]"
proof -
  have "push_bit 8 (uint b1) OR push_bit 16 (uint b2) = push_bit 8 (uint b1 OR push_bit 8 (uint b2))"
    by simp
  then have "u24 b0 b1 b2 = uint b0 OR push_bit 8 (uint b1 OR push_bit 8 (uint b2))"
    by (simp add: u24_def or.assoc)
  also have "\<dots> = uint b0 + push_bit 8 (uint b1 + push_bit 8 (uint b2))"
    by (simp add: disjunctive_add_eq_or [symmetric] byte_and_shift)
  finally show ?thesis
    by (simp add: push_bit_eq_mult)
qed

text \<open>The equations that evaluate the parsers on the sample inputs.\<close>

lemmas eval_defs =
  py_slice_nonneg py_slice_from_nonneg u24_def EFI_SECTION_COMPR_def
  EfiSection_parse_def EfiSection_size_padded_def align_up_def
  FfsFile_is_terminator_def FfsFile_parse_header_def FfsFile_parse_sections_def FfsFile_parse_def
  FfsFile_size_padded_def unpack_fits_def zero_guid_bytes uuid_error_def
  parse_sections_loop.simps parse_files_loop.simps
  x_align_up_def ALIGN_def x_EfiSection_init_def x_EfiSection_parse_def x_EfiSection_new_parse_def
  x_FfsFile_init_def x_FfsFile_parse_def x_FfsFile_new_parse_def x_sections_loop.simps
  x_files_loop.simps

section \<open>Sections\<close>

lemma EfiSection_parse_raw_payload:
  assumes "EfiSection_parse dec raw = Inr sec" and "sec_type sec \<noteq> 0x01"
  shows "sec_payload sec = py_slice raw 4 (sec_size sec)"
  using assms
  by (auto simp: EfiSection_parse_def Let_def EFI_SECTION_COMPR_def
           split: if_splits option.splits)

lemma x_EfiSection_parse_raw_payload:
  assumes "x_EfiSection_new_parse dec raw off = Inr sec" and "xs_type sec \<noteq> 0x01"
  shows "xs_payload sec = py_slice raw 4 (xs_size sec)"
  using assms
  by (auto simp: x_EfiSection_new_parse_def x_EfiSection_init_def x_EfiSection_parse_def Let_def
           split: if_splits option.splits sum.splits)

text \<open>
  A section whose type is not 0x01, from its four header bytes: the result of both
  parsers, and where the header bytes of the slice a section loop hands over lie in
  the input.
\<close>

lemma header_of_library_section:
  assumes "0 \<le> ptr" and "0 \<le> off" and "off + 4 \<le> e"
    and "py_slice d (ptr + off) (ptr + off + 4) = [t, b1, b2, b3]"
  shows "py_slice (py_slice (py_slice_from d ptr) off e) 0 4 = [t, b1, b2, b3]"
proof -
  have e: "0 \<le> e" using assms by linarith
  have m: "min 4 (nat e - nat off) = 4" using assms by linarith
  have src: "take 4 (drop (nat ptr + nat off) d) = [t, b1, b2, b3]"
    using assms by (simp add: py_slice_nonneg nat_add_distrib)
  have "py_slice (py_slice (py_slice_from d ptr) off e) 0 4 =
        take 4 (take (nat e - nat off) (drop (nat off) (drop (nat ptr) d)))"
    using assms e by (simp add: py_slice_nonneg py_slice_from_nonneg)
  also have "\<dots> = take 4 (drop (nat ptr + nat off) d)"
    by (simp add: m add.commute)
  finally show ?thesis by (simp add: src)
qed

lemma header_of_x_section:
  assumes "0 \<le> ptr" and "0 \<le> off" and "off + 4 \<le> fsz"
    and "py_slice d (ptr + off) (ptr + off + 4) = [t, b1, b2, b3]"
  shows "take 4 (py_slice_from (py_slice d ptr (ptr + fsz)) off) = [t, b1, b2, b3]"
proof -
  have f: "0 \<le> fsz" using assms by linarith
  have m: "min 4 (nat fsz - nat off) = 4" using assms by linarith
  have src: "take 4 (drop (nat ptr + nat off) d) = [t, b1, b2, b3]"
    using assms by (simp add: py_slice_nonneg nat_add_distrib)
  have "take 4 (py_slice_from (py_slice d ptr (ptr + fsz)) off) =
        take 4 (drop (nat off) (take (nat fsz) (drop (nat ptr) d)))"
    using assms f by (simp add: py_slice_nonneg py_slice_from_nonneg nat_add_distrib)
  also have "\<dots> = take 4 (drop (nat ptr + nat off) d)"
    by (simp add: drop_take m add.commute)
  finally show ?thesis by (simp add: src)
qed

lemma EfiSection_parse_plain:
  assumes "py_slice raw 0 4 = [t, b1, b2, b3]" and "uint t \<noteq> 0x01"
  shows "EfiSection_parse dec raw =
     Inr \<lparr>sec_type = uint t, sec_size = u24 b1 b2 b3,
          sec_attrs = (if 4 < length raw then uint (raw ! 4) else 0),
          sec_payload = py_slice raw 4 (u24 b1 b2 b3)\<rparr>"
  using assms by (simp add: EfiSection_parse_def Let_def EFI_SECTION_COMPR_def)

lemma x_EfiSection_parse_plain:
  assumes "take 4 raw = [t, b1, b2, b3]" and "uint t \<noteq> 0x01"
  shows "x_EfiSection_new_parse dec raw off =
     Inr \<lparr>xs_raw = raw, xs_offset = off, xs_type = uint t, xs_size = le_int [b1, b2, b3],
          xs_attrs = (if 4 < length raw then uint (raw ! 4) else 0),
          xs_payload = py_slice raw 4 (le_int [b1, b2, b3])\<rparr>"
proof -
  from assms(1) obtain rest where raw: "raw = t # b1 # b2 # b3 # rest"
    by (cases raw rule: block_entries.cases) auto
  have "py_slice raw 1 4 = [b1, b2, b3]"
    by (simp add: raw py_slice_nonneg)
  moreover have "raw \<noteq> []" "raw ! 0 = t" by (simp_all add: raw)
  ultimately show ?thesis
    using assms(2)
    by (simp add: x_EfiSection_new_parse_def x_EfiSection_init_def x_EfiSection_parse_def Let_def
        del: le_int.simps)
qed


text \<open>
  In the library the attributes byte and the algorithm byte are the same byte
  \<^verbatim>\<open>raw[4]\<close>: once the body has its four header bytes, \<^verbatim>\<open>body[0]\<close> is \<^verbatim>\<open>raw[4]\<close>.
\<close>

lemma body_head:
  assumes "4 \<le> length (py_slice raw 4 sz)"
  shows "4 < length raw \<and> py_slice raw 4 sz ! 0 = raw ! 4"
proof -
  obtain k where k: "py_slice raw 4 sz = take k (drop 4 raw)"
    using py_slice_is_take_drop [of 4 raw sz] by auto
  from assms k have "4 \<le> min k (length raw - 4)" by simp
  then have "0 < k" "4 < length raw" by linarith+
  then show ?thesis by (simp add: k)
qed

text \<open>
  So the library's test \<^verbatim>\<open>alg != 0x01\<close> is never true where it stands, and
  \<^verbatim>\<open>NotImplementedError\<close> is never raised.
\<close>

lemma EfiSection_parse_never_unsupported:
  "EfiSection_parse dec raw \<noteq> Inl (NotImplementedError msg)"
proof -
  have "uint (py_slice raw 4 sz ! 0) = 1"
    if "4 \<le> length (py_slice raw 4 sz)"
      and "(if 4 < length raw then uint (raw ! 4) else 0) = 1" for sz
    using body_head [OF that(1)] that(2) by simp
  then show ?thesis
    by (auto simp: EfiSection_parse_def Let_def split: option.splits)
qed

subsection \<open>Strides\<close>

lemma and_not_mask_int: "(y::int) AND NOT (mask n) = push_bit n (drop_bit n y)"
  by (rule bit_eqI) (auto simp: bit_simps)

text \<open>\<^verbatim>\<open>align_up\<close> rounds up to the next multiple of 4 and of 8.\<close>

lemma align_up_multiple:
  "align_up x 4 = 4 * ((x + 3) div 4)" "align_up x 8 = 8 * ((x + 7) div 8)"
proof -
  have n: "NOT (4 - 1) = NOT (mask 2 :: int)" "NOT (8 - 1) = NOT (mask 3 :: int)"
    by (simp_all add: mask_eq_exp_minus_1)
  have "align_up x 4 = (x + 3) AND NOT (mask 2)"
    unfolding align_up_def n by (simp add: algebra_simps)
  also have "\<dots> = 4 * ((x + 3) div 4)"
    unfolding and_not_mask_int by (simp add: push_bit_eq_mult drop_bit_eq_div)
  finally show "align_up x 4 = 4 * ((x + 3) div 4)" .
  have "align_up x 8 = (x + 7) AND NOT (mask 3)"
    unfolding align_up_def n by (simp add: algebra_simps)
  also have "\<dots> = 8 * ((x + 7) div 8)"
    unfolding and_not_mask_int by (simp add: push_bit_eq_mult drop_bit_eq_div)
  finally show "align_up x 8 = 8 * ((x + 7) div 8)" .
qed

lemma x_align_up_ALIGN: "x_align_up x ALIGN = 8 * ((x + 7) div 8)"
  using align_up_multiple(2) [of x] by (simp add: x_align_up_def align_up_def ALIGN_def)

text \<open>
  One turn of each section loop: the library moves on by the size rounded up to a
  multiple of 4, \<^verbatim>\<open>extract_fw.py\<close> by the size rounded up to a multiple of 8.
\<close>

lemma library_section_stride:
  assumes "offset + 4 \<le> e"
    and "EfiSection_parse dec (py_slice raw offset e) = Inr sec"
  shows "parse_sections_loop dec raw e offset secs =
         parse_sections_loop dec raw e (offset + 4 * ((sec_size sec + 3) div 4)) (secs @ [sec])"
  using assms
  by (subst parse_sections_loop.simps)
     (simp add: EfiSection_size_padded_def align_up_multiple)

lemma x_section_stride:
  assumes "ptr + 4 \<le> sz"
    and "x_EfiSection_new_parse dec (py_slice_from raw ptr) ptr = Inr sec"
  shows "x_sections_loop dec raw sz ptr secs =
         x_sections_loop dec raw sz (ptr + 8 * ((xs_size sec + 7) div 8)) (secs @ [sec])"
  using assms
  by (subst x_sections_loop.simps) (simp add: x_align_up_ALIGN)

section \<open>The volume header\<close>

lemma header_slices:
  "py_slice (py_slice d 0 0x30) 0x28 0x2C = py_slice d 0x28 0x2C"
  "py_slice (py_slice d 0 0x30) 0x28 0x2A = take 2 (py_slice d 0x28 0x2C)"
  "py_slice (py_slice d 0 0x30) 0x20 0x28 = py_slice d 0x20 0x28"
  "length (py_slice d 0 0x30) = min 48 (length d)"
  by (simp_all add: py_slice_nonneg drop_take)

lemma le_int_FV: "le_int (take 2 EFI_FV_SIGNATURE) = 0x465F"
  by (simp add: EFI_FV_SIGNATURE_def)

lemma parse_header_accepts_only_signature:
  assumes "FirmwareVolume_parse_header self = Inr fv"
  shows "py_slice (fv_data self) 0x28 0x2C = EFI_FV_SIGNATURE"
  using assms
  by (simp add: FirmwareVolume_parse_header_def Let_def header_slices split: if_splits)

lemma parse_header_bad_signature:
  assumes "0x2C \<le> length (fv_data self)"
    and "py_slice (fv_data self) 0x28 0x2C \<noteq> EFI_FV_SIGNATURE"
  shows "FirmwareVolume_parse_header self = Inl (ValueError ''Bad FV signature'')"
  using assms
  by (simp add: FirmwareVolume_parse_header_def Let_def header_slices unpack_fits_def)

lemma parse_header_short:
  assumes "length (fv_data self) < 0x2C"
  shows "FirmwareVolume_parse_header self = Inl StructError"
  using assms
  by (simp add: FirmwareVolume_parse_header_def Let_def header_slices unpack_fits_def)

text \<open>
  Whatever the library accepts, the header length it records is the number that the
  bytes \<^verbatim>\<open>_F\<close> of the signature spell.
\<close>

lemma parse_header_header_length:
  assumes "FirmwareVolume_parse_header self = Inr fv"
  shows "header_length fv = 0x465F"
proof -
  have sig: "py_slice (fv_data self) 0x28 0x2C = EFI_FV_SIGNATURE"
    by (rule parse_header_accepts_only_signature [OF assms])
  from assms obtain bm where
    "fv = self\<lparr>fv_length := le_int (py_slice (py_slice (fv_data self) 0 0x30) 0x20 0x28),
              header_length := le_int (py_slice (py_slice (fv_data self) 0 0x30) 0x28 0x2A),
              block_map := bm\<rparr>"
    by (auto simp: FirmwareVolume_parse_header_def Let_def split: if_splits sum.splits)
  then show ?thesis
    by (simp add: header_slices sig le_int_FV)
qed

lemma x_parse_header_header_len:
  assumes "x_FirmwareVolume_parse_header self = Inr fv"
  shows "header_len fv = 0x465F"
proof -
  have t: "py_slice h 0x28 0x2A = take 2 (py_slice h 0x28 0x2C)" for h :: "byte list"
    by (simp add: py_slice_nonneg)
  have "le_int (take 2 EFI_FV_SIG) = 0x465F"
    by (simp add: EFI_FV_SIG_def)
  with assms show ?thesis
    by (auto simp: x_FirmwareVolume_parse_header_def Let_def t split: if_splits sum.splits)
qed

subsection \<open>The block-map loop\<close>

lemma four_bytes_at:
  fixes d :: "byte list"
  assumes "unpack_fits 4 d off"
  shows "\<exists>a b c e rest. drop (nat off) d = a # b # c # e # rest \<and>
           py_slice d off (off + 2) = [a, b] \<and> py_slice d (off + 2) (off + 4) = [c, e] \<and>
           drop (nat (off + 4)) d = rest"
proof -
  from assms have off: "0 \<le> off" and len: "4 \<le> length (drop (nat off) d)"
    by (auto simp: unpack_fits_def)
  then obtain a b c e rest where ys: "drop (nat off) d = a # b # c # e # rest"
    by (cases "drop (nat off) d" rule: block_entries.cases) auto
  have "py_slice d off (off + 2) = take 2 (drop (nat off) d)"
    using off by (simp add: py_slice_nonneg nat_add_distrib)
  then have 1: "py_slice d off (off + 2) = [a, b]" by (simp add: ys)
  have "py_slice d (off + 2) (off + 4) = take 2 (drop 2 (drop (nat off) d))"
    using off by (simp add: py_slice_nonneg nat_add_distrib add.commute)
  then have 2: "py_slice d (off + 2) (off + 4) = [c, e]" by (simp add: ys)
  have "drop (nat (off + 4)) d = drop 4 (drop (nat off) d)"
    using off by (simp add: nat_add_distrib add.commute)
  then have 3: "drop (nat (off + 4)) d = rest" by (simp add: ys)
  from ys 1 2 3 show ?thesis by blast
qed

lemma read_block_map_entries:
  "read_block_map d off bm = Inr bm' \<Longrightarrow>
     bm' = bm @ entries_before_zero_field (block_entries (drop (nat off) d))"
proof (induction d off bm rule: read_block_map.induct)
  case (1 d offset bm)
  show ?case
  proof (cases "unpack_fits 4 d offset")
    case False
    with "1.prems" show ?thesis by (simp add: read_block_map.simps)
  next
    case True
    then obtain a b c e rest where
      ys: "drop (nat offset) d = a # b # c # e # rest" and
      s1: "py_slice d offset (offset + 2) = [a, b]" and
      s2: "py_slice d (offset + 2) (offset + 4) = [c, e]" and
      r: "drop (nat (offset + 4)) d = rest"
      using four_bytes_at by blast
    show ?thesis
    proof (cases "le_int [a, b] = 0 \<or> le_int [c, e] = 0")
      case stop: True
      with True "1.prems" have "bm' = bm"
        by (simp add: read_block_map.simps [of d offset] s1 s2 del: le_int.simps)
      with stop show ?thesis
        by (simp add: ys entries_before_zero_field_def del: le_int.simps)
    next
      case go: False
      with True "1.prems" have
        "read_block_map d (offset + 4) (bm @ [(le_int [a, b], le_int [c, e])]) = Inr bm'"
        by (simp add: read_block_map.simps [of d offset] s1 s2 del: le_int.simps)
      moreover from True have nn: "\<not> \<not> unpack_fits 4 d offset" by simp
      note IH = "1.IH" [OF nn refl refl, unfolded s1 s2]
      ultimately have
        "bm' = (bm @ [(le_int [a, b], le_int [c, e])]) @
                 entries_before_zero_field (block_entries (drop (nat (offset + 4)) d))"
        using go IH by blast
      with go show ?thesis
        by (simp add: ys r entries_before_zero_field_def del: le_int.simps)
    qed
  qed
qed

lemma parse_header_block_map:
  assumes "FirmwareVolume_parse_header (FirmwareVolume_init d) = Inr fv"
  shows "block_map fv = entries_before_zero_field (block_entries (drop 0x30 d))"
proof -
  from assms obtain bm where bm: "read_block_map d 0x30 [] = Inr bm" and "block_map fv = bm"
    by (auto simp: FirmwareVolume_parse_header_def FirmwareVolume_init_def Let_def
             split: if_splits sum.splits)
  with read_block_map_entries [OF bm] show ?thesis by simp
qed

lemma x_parse_header_block_map:
  assumes "x_FirmwareVolume_parse_header (x_FirmwareVolume_init d) = Inr fv"
  shows "x_block_map fv = entries_before_zero_field
           (block_entries (drop (nat (bytes_find d EFI_FV_SIG FVH_OFFSET + 0x4C)) d))"
proof -
  from assms obtain bm where
    bm: "read_block_map d (bytes_find d EFI_FV_SIG FVH_OFFSET + 0x4C) [] = Inr bm"
    and "x_block_map fv = bm"
    by (auto simp: x_FirmwareVolume_parse_header_def x_FirmwareVolume_init_def Let_def
             split: if_splits sum.splits)
  with read_block_map_entries [OF bm] show ?thesis by simp
qed

lemma parse_header_zero_first_entry:
  assumes "0x34 \<le> length d" and "py_slice d 0x28 0x2C = EFI_FV_SIGNATURE"
    and "le_int (py_slice d 0x30 0x32) = 0 \<or> le_int (py_slice d 0x32 0x34) = 0"
  shows "FirmwareVolume_parse_header (FirmwareVolume_init d) =
           Inr \<lparr>fv_data = d, header_length = 0x465F, fv_length = le_int (py_slice d 0x20 0x28),
                block_map = [], files = []\<rparr>"
proof -
  have "read_block_map d 0x30 [] = Inr []"
    using assms(1,3) by (auto simp: read_block_map.simps [of d 48] unpack_fits_def)
  then show ?thesis
    using assms(1,2)
    by (simp add: FirmwareVolume_parse_header_def FirmwareVolume_init_def Let_def header_slices
        unpack_fits_def le_int_FV)
qed

subsection \<open>The padded sample volumes\<close>

lemma length_fv_header: "length (fv_header a b) = 52"
  by (simp add: fv_header_def)

lemma length_padded_fv: "length (padded_fv a b area) = 18015 + length area"
  by (simp add: padded_fv_def length_fv_header)

lemma take_padded_fv: "take 52 (padded_fv a b area) = fv_header a b"
  by (simp add: padded_fv_def length_fv_header)

lemma drop_padded_fv: "drop 18015 (padded_fv a b area) = area"
  by (simp add: padded_fv_def length_fv_header)

lemma padded_fv_area: "py_slice (padded_fv a b area) 18015 (18015 + int (length area)) = area"
  by (simp add: py_slice_nonneg drop_padded_fv)

lemma padded_fv_slices:
  "py_slice (padded_fv a b area) 0 0x30 = take 48 (fv_header a b)"
  "py_slice (padded_fv a b area) 0x30 0x32 = [0, 0]"
  "py_slice (padded_fv a b area) 0x32 0x34 = [0, 0]"
  "py_slice_from (padded_fv a b area) 18015 = area"
proof -
  have pre: "py_slice (padded_fv a b area) i j = py_slice (fv_header a b) i j"
    if "0 \<le> i" "0 \<le> j" "nat j \<le> 52" for i j
    using py_slice_prefix [OF that, of "padded_fv a b area"] by (simp add: take_padded_fv)
  show "py_slice (padded_fv a b area) 0 0x30 = take 48 (fv_header a b)"
    by (simp add: pre) (simp add: py_slice_nonneg)
  show "py_slice (padded_fv a b area) 0x30 0x32 = [0, 0]"
    by (simp add: pre) (simp add: py_slice_nonneg fv_header_def)
  show "py_slice (padded_fv a b area) 0x32 0x34 = [0, 0]"
    by (simp add: pre) (simp add: py_slice_nonneg fv_header_def)
  show "py_slice_from (padded_fv a b area) 18015 = area"
    by (simp add: py_slice_from_nonneg drop_padded_fv)
qed

lemma padded_fv_area_slice:
  assumes "0 \<le> i" and "0 \<le> j"
  shows "py_slice (padded_fv a b area) (18015 + i) (18015 + j) = py_slice area i j"
  using py_slice_of_tail [of 18015 i j "padded_fv a b area"] assms
  by (simp add: padded_fv_slices)

lemma padded_fv_header:
  "FirmwareVolume_parse_header (FirmwareVolume_init (padded_fv a b area)) =
     Inr \<lparr>fv_data = padded_fv a b area, header_length = 18015,
          fv_length = uint a + 256 * uint b, block_map = [], files = []\<rparr>"
  by (simp add: FirmwareVolume_parse_header_def FirmwareVolume_init_def padded_fv_slices
      read_block_map.simps [of _ 48] unpack_fits_def length_padded_fv Let_def)
     (simp add: fv_header_def py_slice_nonneg EFI_FV_SIGNATURE_def)

text \<open>The equations that evaluate the two header parsers on the sample volumes.\<close>

lemmas hdr_eval =
  FirmwareVolume_parse_header_def FirmwareVolume_init_def
  x_FirmwareVolume_parse_header_def x_FirmwareVolume_init_def
  EFI_FV_SIGNATURE_def EFI_FV_SIG_def FVH_OFFSET_def bytes_find_def
  py_slice_nonneg unpack_fits_def read_block_map.simps Let_def

section \<open>File records\<close>

lemma FfsFile_parse_header_complete:
  assumes "22 \<le> length raw"
  shows "FfsFile_parse_header raw =
     Inr \<lparr>ffs_guid = take 16 raw, ffs_type = uint (raw ! 16), ffs_attributes = uint (raw ! 17),
          ffs_size = u24 (raw ! 18) (raw ! 19) (raw ! 20), ffs_state = uint (raw ! 21),
          ffs_data = [], ffs_sections = []\<rparr>"
  using assms
  by (simp add: FfsFile_parse_header_def Let_def py_slice_nonneg unpack_fits_def)

lemma FfsFile_parse_small:
  assumes "22 \<le> length raw" and "u24 (raw ! 18) (raw ! 19) (raw ! 20) < 24"
  shows "FfsFile_parse dec raw =
     Some (Inr \<lparr>ffs_guid = take 16 raw, ffs_type = uint (raw ! 16),
          ffs_attributes = uint (raw ! 17),
          ffs_size = u24 (raw ! 18) (raw ! 19) (raw ! 20), ffs_state = uint (raw ! 21),
          ffs_data = [], ffs_sections = []\<rparr>)"
proof -
  have "py_slice raw 24 (u24 (raw ! 18) (raw ! 19) (raw ! 20)) = []"
    using assms(2) by (simp add: py_slice_nonneg u24_nonneg)
  then show ?thesis
    using assms
    by (simp add: FfsFile_parse_def FfsFile_parse_header_complete FfsFile_parse_sections_def
        parse_sections_loop.simps)
qed








text \<open>
  A record of declared size 0 is yielded with the cursor left where it is, so the
  library's file loop yields it again and again and never returns.
\<close>

lemma files_loop_zero_size_aux:
  assumes "parse_files_loop dec d e ptr fs = Some y"
  shows "\<not> (ptr + 24 < e \<and> \<not> FfsFile_is_terminator (py_slice_from d ptr) \<and>
            22 \<le> length (py_slice_from d ptr) \<and>
            u24 (py_slice_from d ptr ! 18) (py_slice_from d ptr ! 19)
                (py_slice_from d ptr ! 20) = 0)"
proof (rule parse_files_loop.raw_induct
    [where P = "\<lambda>dec d e ptr fs y.
       \<not> (ptr + 24 < e \<and> \<not> FfsFile_is_terminator (py_slice_from d ptr) \<and>
            22 \<le> length (py_slice_from d ptr) \<and>
            u24 (py_slice_from d ptr ! 18) (py_slice_from d ptr ! 19)
                (py_slice_from d ptr ! 20) = 0)",
     OF _ assms])
  fix loop :: "decompressor \<Rightarrow> byte list \<Rightarrow> int \<Rightarrow> int \<Rightarrow> FfsFile list
     \<Rightarrow> (py_error + FfsFile list) option"
  fix dec :: decompressor and d :: "byte list" and e ptr :: int and fs :: "FfsFile list"
    and y :: "py_error + FfsFile list"
  let ?raw = "py_slice_from d ptr"
  assume IH: "\<And>dec d e ptr fs y. loop dec d e ptr fs = Some y \<Longrightarrow>
      \<not> (ptr + 24 < e \<and> \<not> FfsFile_is_terminator (py_slice_from d ptr) \<and>
            22 \<le> length (py_slice_from d ptr) \<and>
            u24 (py_slice_from d ptr ! 18) (py_slice_from d ptr ! 19)
                (py_slice_from d ptr ! 20) = 0)"
  assume body: "(if ptr + 24 < e
      then if FfsFile_is_terminator ?raw then Some (Inr fs)
           else case FfsFile_parse dec ?raw of None \<Rightarrow> None
                | Some (Inl e) \<Rightarrow> Some (Inl e)
                | Some (Inr f) \<Rightarrow>
                    loop dec d e (ptr + FfsFile_size_padded f 8) (fs @ [f])
      else Some (Inr fs)) = Some y"
  show "\<not> (ptr + 24 < e \<and> \<not> FfsFile_is_terminator ?raw \<and> 22 \<le> length ?raw \<and>
            u24 (?raw ! 18) (?raw ! 19) (?raw ! 20) = 0)"
  proof
    assume z: "ptr + 24 < e \<and> \<not> FfsFile_is_terminator ?raw \<and> 22 \<le> length ?raw \<and>
            u24 (?raw ! 18) (?raw ! 19) (?raw ! 20) = 0"
    then have sz: "u24 (?raw ! 18) (?raw ! 19) (?raw ! 20) = 0" and len: "22 \<le> length ?raw"
      and nt: "\<not> FfsFile_is_terminator ?raw"
      by simp_all
    have "FfsFile_parse dec ?raw =
      Some (Inr \<lparr>ffs_guid = take 16 ?raw, ffs_type = uint (?raw ! 16),
          ffs_attributes = uint (?raw ! 17),
          ffs_size = 0, ffs_state = uint (?raw ! 21),
          ffs_data = [], ffs_sections = []\<rparr>)"
      using FfsFile_parse_small [OF len, of dec] sz by simp
    with body z nt have "\<exists>f. loop dec d e ptr (fs @ [f]) = Some y"
      by (auto simp: FfsFile_size_padded_def align_up_def)
    then obtain f where "loop dec d e ptr (fs @ [f]) = Some y" ..
    from IH [OF this] z show False by simp
  qed
qed

lemma files_loop_never_returns:
  assumes "ptr + 24 < e" and "\<not> FfsFile_is_terminator (py_slice_from d ptr)"
    and "22 \<le> length (py_slice_from d ptr)"
    and "u24 (py_slice_from d ptr ! 18) (py_slice_from d ptr ! 19)
             (py_slice_from d ptr ! 20) = 0"
  shows "parse_files_loop dec d e ptr fs = None"
proof (cases "parse_files_loop dec d e ptr fs")
  case None
  then show ?thesis .
next
  case (Some y)
  from files_loop_zero_size_aux [OF this] assms show ?thesis by simp
qed

text \<open>With 24 bytes or fewer left before \<open>e\<close>, both file loops stop.\<close>

lemma files_loop_stops_within_24:
  assumes "e \<le> ptr + 24"
  shows "parse_files_loop dec d e ptr fs = Some (Inr fs)"
    and "x_files_loop dec d e ptr xfs = Some (Inr xfs)"
  using assms by (simp_all add: parse_files_loop.simps x_files_loop.simps)

section \<open>Claims about sections\<close>

text \<open>
  Claim C1. The section iterator advances by \<^verbatim>\<open>align_up(section.size, 4)\<close> and the
  FFS iterator by \<^verbatim>\<open>align_up(file.size, 8)\<close>; the two strides are distinct.

  The library does so (\<open>library_section_stride\<close>, and \<open>files_loop_step\<close> for files).
  \<^verbatim>\<open>extract_fw.py\<close> has the one constant \<^verbatim>\<open>ALIGN = 8\<close> and uses it for sections too
  (\<open>x_section_stride\<close>). On \<open>sample_file\<close>, whose second section starts at offset
  36, the section loop of \<^verbatim>\<open>extract_fw.py\<close> goes from 24 to 40, reads a section header
  out of the second section's payload and finds no bytes left for it, where the library
  yields both sections.
\<close>

theorem extract_fw_section_stride_is_8:
  "map_option (map_sum id (map xs_offset \<circ> xf_sections))
       (x_FfsFile_new_parse dec sample_file 0)
     = Some (Inr [24, 40]) \<and>
   map_option (map_sum id (map xs_payload \<circ> xf_sections))
       (x_FfsFile_new_parse dec sample_file 0)
     = Some (Inr [[0xAA, 0xBB, 0xCC, 0xDD, 0xEE, 0xFF], []]) \<and>
   map_option (map_sum id (map sec_payload \<circ> ffs_sections)) (FfsFile_parse dec sample_file)
     = Some (Inr [[0xAA, 0xBB, 0xCC, 0xDD, 0xEE, 0xFF], [0x11, 0x22]]) \<and>
   24 + x_align_up 10 ALIGN = 40 \<and> 24 + align_up 10 4 = 36"
  by (simp add: sample_file_def eval_defs)

text \<open>
  Claim C4. A section of type 0x01 whose algorithm byte is not 1 fails with
  \<^verbatim>\<open>UnsupportedCompression\<close>; with algorithm 1 the payload is the LZMA
  decompression of the body after the 4-byte compression header.

  \<^verbatim>\<open>extract_fw.py\<close> raises \<^verbatim>\<open>NotImplementedError\<close> on \<open>unsupported_section\<close>. The
  library, which has the same check, guards the whole compression branch by
  \<^verbatim>\<open>self.attrs == 0x01\<close>, and \<^verbatim>\<open>attrs\<close> is the algorithm byte itself: the section is
  returned with its raw body as payload and no error
  (\<open>EfiSection_parse_never_unsupported\<close>: the library never raises it).
\<close>

theorem firmware_utils_accepts_unsupported_algorithm:
  "EfiSection_parse dec unsupported_section =
     Inr \<lparr>sec_type = 1, sec_size = 12, sec_attrs = 2,
          sec_payload = [0x02, 0x04, 0x00, 0x00, 1, 2, 3, 4]\<rparr> \<and>
   x_EfiSection_new_parse dec unsupported_section 24 =
     Inl (NotImplementedError ''Unsupported compression'')"
  by (simp add: unsupported_section_def eval_defs)

text \<open>
  Claim C8. For every parsed section whose type is not 0x01 and whose declared size
  is at least 4 and at most the remaining body length, the payload is the input bytes
  from \<open>section_start + 4\<close> to \<open>section_start + size\<close>.

  \<open>d\<close> is the input, \<open>ptr\<close> the offset of the file record in it, \<open>fsize\<close> the
  declared size of the file and \<open>off\<close> the offset of the section in the record: the
  section starts at \<open>ptr + off\<close> and \<open>fsize - off\<close> is the remaining body length. The
  four bytes of the input at \<open>ptr + off\<close> are the type tag \<open>t\<close> and the three bytes of
  the declared size \<open>sz\<close>. The library cuts the record as \<^verbatim>\<open>d[ptr:]\<close> and hands the
  section parser \<^verbatim>\<open>raw[off:fsize]\<close>; \<^verbatim>\<open>extract_fw.py\<close> cuts the record as
  \<^verbatim>\<open>d[ptr:ptr+fsize]\<close> and hands over \<^verbatim>\<open>raw[off:]\<close>. Both parsers return a section,
  with the tag and the declared size of the input and with the input bytes from
  \<open>ptr + off + 4\<close> to \<open>ptr + off + sz\<close> as payload.
\<close>

theorem non_compression_payload_is_raw:
  assumes "0 \<le> ptr" and "0 \<le> off"
    and "py_slice d (ptr + off) (ptr + off + 4) = [t, b1, b2, b3]"
    and "uint t \<noteq> 0x01"
    and "sz = le_int [b1, b2, b3]"
    and "4 \<le> sz" and "sz \<le> fsize - off"
  shows "EfiSection_parse dec (py_slice (py_slice_from d ptr) off fsize) =
            Inr \<lparr>sec_type = uint t, sec_size = sz,
                 sec_attrs = (if 4 < length (py_slice (py_slice_from d ptr) off fsize)
                              then uint (py_slice (py_slice_from d ptr) off fsize ! 4) else 0),
                 sec_payload = py_slice d (ptr + off + 4) (ptr + off + sz)\<rparr> \<and>
         x_EfiSection_new_parse dec (py_slice_from (py_slice d ptr (ptr + fsize)) off) off =
            Inr \<lparr>xs_raw = py_slice_from (py_slice d ptr (ptr + fsize)) off, xs_offset = off,
                 xs_type = uint t, xs_size = sz,
                 xs_attrs = (if 4 < length (py_slice_from (py_slice d ptr (ptr + fsize)) off)
                             then uint (py_slice_from (py_slice d ptr (ptr + fsize)) off ! 4) else 0),
                 xs_payload = py_slice d (ptr + off + 4) (ptr + off + sz)\<rparr>"
proof (rule conjI)
  let ?raw = "py_slice (py_slice_from d ptr) off fsize"
  have sz: "u24 b1 b2 b3 = sz" using assms(5) by (simp only: u24_le_int)
  have "off + 4 \<le> fsize" using assms by linarith
  then have hdr: "py_slice ?raw 0 4 = [t, b1, b2, b3]"
    using assms(1-3) by (intro header_of_library_section)
  have "py_slice ?raw 4 sz = py_slice (py_slice_from d ptr) (off + 4) (off + sz)"
    using assms by (simp add: section_body_in_file del: le_int.simps)
  also have "\<dots> = py_slice d (ptr + off + 4) (ptr + off + sz)"
    using assms by (simp add: py_slice_of_tail add.assoc del: le_int.simps)
  finally show "EfiSection_parse dec ?raw =
            Inr \<lparr>sec_type = uint t, sec_size = sz,
                 sec_attrs = (if 4 < length ?raw then uint (?raw ! 4) else 0),
                 sec_payload = py_slice d (ptr + off + 4) (ptr + off + sz)\<rparr>"
    using EfiSection_parse_plain [OF hdr assms(4), of dec] by (simp add: sz)
next
  let ?raw = "py_slice_from (py_slice d ptr (ptr + fsize)) off"
  have sz: "le_int [b1, b2, b3] = sz" using assms(5) by simp
  have "off + 4 \<le> fsize" using assms by linarith
  then have hdr: "take 4 ?raw = [t, b1, b2, b3]"
    using assms(1-3) by (intro header_of_x_section)
  have "py_slice ?raw 4 sz = py_slice (py_slice d ptr (ptr + fsize)) (off + 4) (off + sz)"
    using assms by (simp add: section_body_in_tail del: le_int.simps)
  also have "\<dots> = py_slice d (ptr + off + 4) (ptr + off + sz)"
    using assms by (simp add: py_slice_of_slice add.assoc del: le_int.simps)
  finally show "x_EfiSection_new_parse dec ?raw off =
            Inr \<lparr>xs_raw = ?raw, xs_offset = off,
                 xs_type = uint t, xs_size = sz,
                 xs_attrs = (if 4 < length ?raw then uint (?raw ! 4) else 0),
                 xs_payload = py_slice d (ptr + off + 4) (ptr + off + sz)\<rparr>"
    using x_EfiSection_parse_plain [OF hdr assms(4), of dec off] by (simp only: sz)
qed

theorem non_compression_payload_is_raw_witness:
  "(0::int) \<le> 18015 \<and> (0::int) \<le> 24 \<and>
   py_slice (padded_fv 0x8B 0x46 sample_file) (18015 + 24) (18015 + 24 + 4) =
     [0x10, 0x0A, 0x00, 0x00] \<and>
   uint (0x10 :: byte) \<noteq> 0x01 \<and> (10::int) = le_int [0x0A, 0x00, 0x00] \<and>
   (4::int) \<le> 10 \<and> (10::int) \<le> 44 - 24 \<and>
   EfiSection_parse (\<lambda>_. None)
       (py_slice (py_slice_from (padded_fv 0x8B 0x46 sample_file) 18015) 24 44) =
     Inr \<lparr>sec_type = 0x10, sec_size = 10, sec_attrs = 0xAA,
          sec_payload = [0xAA, 0xBB, 0xCC, 0xDD, 0xEE, 0xFF]\<rparr> \<and>
   x_EfiSection_new_parse (\<lambda>_. None)
       (py_slice_from (py_slice (padded_fv 0x8B 0x46 sample_file) 18015 (18015 + 44)) 24) 24 =
     Inr \<lparr>xs_raw = py_slice_from sample_file 24, xs_offset = 24, xs_type = 0x10, xs_size = 10,
          xs_attrs = 0xAA, xs_payload = [0xAA, 0xBB, 0xCC, 0xDD, 0xEE, 0xFF]\<rparr> \<and>
   py_slice (padded_fv 0x8B 0x46 sample_file) (18015 + 24 + 4) (18015 + 24 + 10) =
     [0xAA, 0xBB, 0xCC, 0xDD, 0xEE, 0xFF]"
proof -
  have area: "py_slice (padded_fv 0x8B 0x46 sample_file) 18015 (18015 + 44) = sample_file"
    using padded_fv_area [of "0x8B" "0x46" sample_file] by (simp add: sample_file_def)
  have tail: "py_slice_from (padded_fv 0x8B 0x46 sample_file) 18015 = sample_file"
    by (simp add: padded_fv_slices)
  have hdr: "py_slice (padded_fv 0x8B 0x46 sample_file) (18015 + 24) (18015 + 24 + 4) =
     [0x10, 0x0A, 0x00, 0x00]"
    using padded_fv_area_slice [of 24 28 "0x8B" "0x46" sample_file]
    by (simp add: sample_file_def py_slice_nonneg)
  have body: "py_slice (padded_fv 0x8B 0x46 sample_file) (18015 + 24 + 4) (18015 + 24 + 10) =
     [0xAA, 0xBB, 0xCC, 0xDD, 0xEE, 0xFF]"
    using padded_fv_area_slice [of 28 34 "0x8B" "0x46" sample_file]
    by (simp add: sample_file_def py_slice_nonneg)
  have at: "4 < length (py_slice sample_file 24 44)" "uint (py_slice sample_file 24 44 ! 4) = 0xAA"
    "4 < length (py_slice_from sample_file 24)" "uint (py_slice_from sample_file 24 ! 4) = 0xAA"
    by (simp_all add: sample_file_def py_slice_nonneg py_slice_from_nonneg)
  have sz: "(10::int) = le_int [0x0A, 0x00, 0x00]" by simp
  from non_compression_payload_is_raw [where ptr = 18015 and off = 24 and fsize = 44
      and d = "padded_fv 0x8B 0x46 sample_file" and dec = "\<lambda>_. None"
      and t = "0x10" and ?b1.0 = "0x0A" and ?b2.0 = 0 and ?b3.0 = 0 and sz = 10, OF _ _ hdr _ sz]
  have "EfiSection_parse (\<lambda>_. None)
       (py_slice (py_slice_from (padded_fv 0x8B 0x46 sample_file) 18015) 24 44) =
     Inr \<lparr>sec_type = 0x10, sec_size = 10, sec_attrs = 0xAA,
          sec_payload = [0xAA, 0xBB, 0xCC, 0xDD, 0xEE, 0xFF]\<rparr> \<and>
   x_EfiSection_new_parse (\<lambda>_. None)
       (py_slice_from (py_slice (padded_fv 0x8B 0x46 sample_file) 18015 (18015 + 44)) 24) 24 =
     Inr \<lparr>xs_raw = py_slice_from sample_file 24, xs_offset = 24, xs_type = 0x10, xs_size = 10,
          xs_attrs = 0xAA, xs_payload = [0xAA, 0xBB, 0xCC, 0xDD, 0xEE, 0xFF]\<rparr>"
    using body area by (simp add: tail at del: le_int.simps)
  with hdr body show ?thesis by simp
qed

text \<open>
  Claim C10. In the library a section of type 0x01 is decompressed only when its
  attributes byte (offset 4) is 0x01; a section of type 0x01 whose attributes byte is
  not 0x01 gets the raw body bytes from 4 to its size as payload, with no
  decompression and no error, whatever the algorithm byte is.

  The section has its four header bytes; the attributes are 0 when there is no fifth
  byte. The first part holds for every \<open>dec\<close>, also one that always fails. The second
  part: a payload that is not the raw body comes from a section of type 0x01 with
  attributes 0x01.
\<close>

theorem compression_needs_attrs_byte:
  "(4 \<le> length raw \<and> uint (raw ! 0) = 0x01 \<and>
      (if 4 < length raw then uint (raw ! 4) else 0) \<noteq> 0x01 \<longrightarrow>
     EfiSection_parse dec raw =
       Inr \<lparr>sec_type = 0x01, sec_size = u24 (raw ! 1) (raw ! 2) (raw ! 3),
            sec_attrs = (if 4 < length raw then uint (raw ! 4) else 0),
            sec_payload = py_slice raw 4 (u24 (raw ! 1) (raw ! 2) (raw ! 3))\<rparr>) \<and>
   (EfiSection_parse dec raw = Inr sec \<and> sec_payload sec \<noteq> py_slice raw 4 (sec_size sec)
      \<longrightarrow> sec_type sec = 0x01 \<and> sec_attrs sec = 0x01)"
proof (intro conjI impI)
  assume a: "4 \<le> length raw \<and> uint (raw ! 0) = 0x01 \<and>
      (if 4 < length raw then uint (raw ! 4) else 0) \<noteq> 0x01"
  then have hdr: "py_slice raw 0 4 = take 4 raw" "length (take 4 raw) = 4"
    by (simp_all add: py_slice_nonneg)
  from a show "EfiSection_parse dec raw =
       Inr \<lparr>sec_type = 0x01, sec_size = u24 (raw ! 1) (raw ! 2) (raw ! 3),
            sec_attrs = (if 4 < length raw then uint (raw ! 4) else 0),
            sec_payload = py_slice raw 4 (u24 (raw ! 1) (raw ! 2) (raw ! 3))\<rparr>"
    unfolding EfiSection_parse_def Let_def hdr by simp
next
  assume "EfiSection_parse dec raw = Inr sec \<and>
    sec_payload sec \<noteq> py_slice raw 4 (sec_size sec)"
  then show "sec_type sec = 0x01"
    by (auto simp: EfiSection_parse_def Let_def EFI_SECTION_COMPR_def
             split: if_splits option.splits)
next
  assume "EfiSection_parse dec raw = Inr sec \<and>
    sec_payload sec \<noteq> py_slice raw 4 (sec_size sec)"
  then show "sec_attrs sec = 0x01"
    by (auto simp: EfiSection_parse_def Let_def EFI_SECTION_COMPR_def
             split: if_splits option.splits)
qed

theorem compression_needs_attrs_byte_witness:
  "4 \<le> length unsupported_section \<and> uint (unsupported_section ! 0) = 0x01 \<and>
   uint (unsupported_section ! 4) = 0x02 \<and>
   EfiSection_parse (\<lambda>_. None) unsupported_section =
     Inr \<lparr>sec_type = 0x01, sec_size = 12, sec_attrs = 0x02,
          sec_payload = [0x02, 0x04, 0x00, 0x00, 1, 2, 3, 4]\<rparr> \<and>
   EfiSection_parse (\<lambda>_. Some [0x42]) lzma_section =
     Inr \<lparr>sec_type = 0x01, sec_size = 9, sec_attrs = 0x01, sec_payload = [0x42]\<rparr> \<and>
   py_slice lzma_section 4 9 = [0x01, 0x01, 0x00, 0x00, 0x5D]"
proof -
  have a: "4 \<le> length unsupported_section" "uint (unsupported_section ! 0) = 0x01"
    "uint (unsupported_section ! 4) = 0x02"
    by (simp_all add: unsupported_section_def)
  have b: "EfiSection_parse (\<lambda>_. Some [0x42]) lzma_section =
     Inr \<lparr>sec_type = 0x01, sec_size = 9, sec_attrs = 0x01, sec_payload = [0x42]\<rparr>"
    "py_slice lzma_section 4 9 = [0x01, 0x01, 0x00, 0x00, 0x5D]"
    by (simp_all add: lzma_section_def eval_defs)
  from compression_needs_attrs_byte [where raw = unsupported_section and dec = "\<lambda>_. None"]
  have c: "EfiSection_parse (\<lambda>_. None) unsupported_section =
     Inr \<lparr>sec_type = 0x01, sec_size = 12, sec_attrs = 0x02,
          sec_payload = [0x02, 0x04, 0x00, 0x00, 1, 2, 3, 4]\<rparr>"
    by (simp add: unsupported_section_def u24_def py_slice_nonneg)
  from compression_needs_attrs_byte [where raw = lzma_section and dec = "\<lambda>_. Some [0x42]"
      and sec = "\<lparr>sec_type = 0x01, sec_size = 9, sec_attrs = 0x01, sec_payload = [0x42]\<rparr>"] b
  have "sec_attrs \<lparr>sec_type = 0x01, sec_size = 9, sec_attrs = 0x01,
          sec_payload = [0x42::byte]\<rparr> = 0x01"
    by simp
  with a b c show ?thesis by simp
qed

section \<open>Claims about the file iterator\<close>

text \<open>
  Claim C7. The FFS iterator stops exactly when fewer than 24 bytes remain in the
  file area or the next 16 bytes are all zero; with at least 24 bytes remaining and a
  GUID slot that is not zero, also with exactly 24 bytes remaining, it yields a file.

  Both loops test \<^verbatim>\<open>ptr + 24 < end\<close>, so they also stop when exactly 24 bytes remain
  (the section loop beside them tests \<^verbatim>\<open>offset + 4 <= end\<close>). The volume below is
  accepted by the library's \<^verbatim>\<open>parse\<close>; its file area, from the header length 18015 to
  its end 18039, is one record of size 24 that \<^verbatim>\<open>FfsFile.parse\<close> parses, and the
  volume's list of files stays empty.
\<close>

theorem file_loop_skips_exact_fit:
  "FirmwareVolume_parse dec (FirmwareVolume_init (padded_fv 0x77 0x46 exact_fit_record)) =
     Some (Inr \<lparr>fv_data = padded_fv 0x77 0x46 exact_fit_record, header_length = 18015,
          fv_length = 18039, block_map = [], files = []\<rparr>) \<and>
   int (length (padded_fv 0x77 0x46 exact_fit_record)) - 18015 = 24 \<and>
   \<not> FfsFile_is_terminator (py_slice_from (padded_fv 0x77 0x46 exact_fit_record) 18015) \<and>
   FfsFile_parse dec (py_slice_from (padded_fv 0x77 0x46 exact_fit_record) 18015) =
     Some (Inr \<lparr>ffs_guid = [1, 2, 3, 4, 5, 6, 7, 8, 9, 10, 11, 12, 13, 14, 15, 16],
       ffs_type = 2, ffs_attributes = 0, ffs_size = 24, ffs_state = 0xF8, ffs_data = [],
       ffs_sections = []\<rparr>)"
proof (intro conjI)
  show "FirmwareVolume_parse dec (FirmwareVolume_init (padded_fv 0x77 0x46 exact_fit_record)) =
     Some (Inr \<lparr>fv_data = padded_fv 0x77 0x46 exact_fit_record, header_length = 18015,
          fv_length = 18039, block_map = [], files = []\<rparr>)"
    by (simp add: FirmwareVolume_parse_def padded_fv_header FirmwareVolume_parse_files_def
        parse_files_loop.simps)
  show "int (length (padded_fv 0x77 0x46 exact_fit_record)) - 18015 = 24"
    by (simp add: length_padded_fv exact_fit_record_def)
  show "\<not> FfsFile_is_terminator (py_slice_from (padded_fv 0x77 0x46 exact_fit_record) 18015)"
    unfolding padded_fv_slices by (simp add: exact_fit_record_def eval_defs)
  show "FfsFile_parse dec (py_slice_from (padded_fv 0x77 0x46 exact_fit_record) 18015) =
     Some (Inr \<lparr>ffs_guid = [1, 2, 3, 4, 5, 6, 7, 8, 9, 10, 11, 12, 13, 14, 15, 16],
       ffs_type = 2, ffs_attributes = 0, ffs_size = 24, ffs_state = 0xF8, ffs_data = [],
       ffs_sections = []\<rparr>)"
    unfolding padded_fv_slices by (simp add: exact_fit_record_def eval_defs)
qed




section \<open>Claims about the volume header\<close>

text \<open>
  Claim C2. For every accepted input the \<^verbatim>\<open>header_length\<close> field is the 16-bit
  little-endian number at byte offset 0x30 of the input.

  Both parsers unpack it from offset 0x28 of \<^verbatim>\<open>hdr\<close>, where the format they have just
  unpacked puts the signature they have just compared with \<^verbatim>\<open>_FVH\<close>. The header length
  of every accepted input is therefore 0x465F, the bytes \<^verbatim>\<open>_F\<close>
  (\<open>parse_header_header_length\<close>, \<open>x_parse_header_header_len\<close>). The library accepts the
  minimal volume of the specification, which has 0x30 at offset 0x30;
  \<^verbatim>\<open>extract_fw.py\<close> accepts \<open>double_sig_fv\<close>, which has 0x48 there.
\<close>

theorem header_length_reads_signature:
  "FirmwareVolume_parse_header (FirmwareVolume_init minimal_fv) =
     Inr \<lparr>fv_data = minimal_fv, header_length = 0x465F, fv_length = 0x40,
          block_map = [(0x30, 1)], files = []\<rparr> \<and>
   le_int (py_slice minimal_fv 0x30 0x32) = 0x30 \<and>
   x_FirmwareVolume_parse_header (x_FirmwareVolume_init double_sig_fv) =
     Inr \<lparr>x_data = double_sig_fv, x_base = 0, header_len = 0x465F, fv_len = 0x94,
          x_block_map = [(2, 0x100)], x_files = []\<rparr> \<and>
   le_int (py_slice double_sig_fv 0x30 0x32) = 0x48"
proof (intro conjI)
  show "FirmwareVolume_parse_header (FirmwareVolume_init minimal_fv) =
     Inr \<lparr>fv_data = minimal_fv, header_length = 0x465F, fv_length = 0x40,
          block_map = [(0x30, 1)], files = []\<rparr>"
    by (simp add: minimal_fv_def hdr_eval)
  show "le_int (py_slice minimal_fv 0x30 0x32) = 0x30"
    by (simp add: minimal_fv_def py_slice_nonneg)
  show "x_FirmwareVolume_parse_header (x_FirmwareVolume_init double_sig_fv) =
     Inr \<lparr>x_data = double_sig_fv, x_base = 0, header_len = 0x465F, fv_len = 0x94,
          x_block_map = [(2, 0x100)], x_files = []\<rparr>"
    by (simp add: double_sig_fv_def hdr_eval)
  show "le_int (py_slice double_sig_fv 0x30 0x32) = 0x48"
    by (simp add: double_sig_fv_def py_slice_nonneg)
qed

text \<open>
  Claim C3, as stated: the header parser succeeds only when the four bytes at offset
  0x28 are \<^verbatim>\<open>_FVH\<close>, and every input where they are not fails with
  \<^verbatim>\<open>BadSignature\<close>.

  The library fails with \<^verbatim>\<open>struct.error\<close> on the 43 bytes of \<open>short_fv\<close>, and
  \<^verbatim>\<open>extract_fw.py\<close>, which searches for the signature from offset 0x40 on, accepts
  \<open>moved_sig_fv\<close>, which has zeros at 0x28.
\<close>

theorem signature_offset_counterexample:
  "FirmwareVolume_parse_header (FirmwareVolume_init short_fv) = Inl StructError \<and>
   py_slice short_fv 0x28 0x2C \<noteq> EFI_FV_SIGNATURE \<and>
   x_FirmwareVolume_parse_header (x_FirmwareVolume_init moved_sig_fv) =
     Inr \<lparr>x_data = moved_sig_fv, x_base = 0, header_len = 0x465F, fv_len = 0,
          x_block_map = [], x_files = []\<rparr> \<and>
   py_slice moved_sig_fv 0x28 0x2C \<noteq> EFI_FV_SIG"
proof (intro conjI)
  show "FirmwareVolume_parse_header (FirmwareVolume_init short_fv) = Inl StructError"
    by (simp add: short_fv_def hdr_eval)
  show "py_slice short_fv 0x28 0x2C \<noteq> EFI_FV_SIGNATURE"
    by (simp add: short_fv_def hdr_eval)
  show "x_FirmwareVolume_parse_header (x_FirmwareVolume_init moved_sig_fv) =
     Inr \<lparr>x_data = moved_sig_fv, x_base = 0, header_len = 0x465F, fv_len = 0,
          x_block_map = [], x_files = []\<rparr>"
    by (simp add: moved_sig_fv_def hdr_eval)
  show "py_slice moved_sig_fv 0x28 0x2C \<noteq> EFI_FV_SIG"
    by (simp add: moved_sig_fv_def hdr_eval)
qed

text \<open>
  Claim C3, amended. The library's header parser succeeds only when the four bytes at
  offset 0x28 are \<^verbatim>\<open>_FVH\<close>, and every input of at least 0x2C bytes where they are not
  fails with \<^verbatim>\<open>ValueError("Bad FV signature")\<close>, wherever else \<^verbatim>\<open>_FVH\<close> occurs.
\<close>

theorem library_signature_at_0x28:
  "(FirmwareVolume_parse_header self = Inr fv \<longrightarrow>
      py_slice (fv_data self) 0x28 0x2C = EFI_FV_SIGNATURE) \<and>
   (0x2C \<le> length (fv_data self) \<and> py_slice (fv_data self) 0x28 0x2C \<noteq> EFI_FV_SIGNATURE
      \<longrightarrow> FirmwareVolume_parse_header self = Inl (ValueError ''Bad FV signature''))"
  using parse_header_accepts_only_signature parse_header_bad_signature by blast

theorem library_signature_at_0x28_witness:
  "FirmwareVolume_parse_header (FirmwareVolume_init minimal_fv) =
     Inr \<lparr>fv_data = minimal_fv, header_length = 0x465F, fv_length = 0x40,
          block_map = [(0x30, 1)], files = []\<rparr> \<and>
   py_slice minimal_fv 0x28 0x2C = EFI_FV_SIGNATURE \<and>
   0x2C \<le> length bad_sig_fv \<and>
   py_slice bad_sig_fv 0x28 0x2C \<noteq> EFI_FV_SIGNATURE \<and>
   FirmwareVolume_parse_header (FirmwareVolume_init bad_sig_fv) =
     Inl (ValueError ''Bad FV signature'')"
proof -
  have a: "FirmwareVolume_parse_header (FirmwareVolume_init minimal_fv) =
     Inr \<lparr>fv_data = minimal_fv, header_length = 0x465F, fv_length = 0x40,
          block_map = [(0x30, 1)], files = []\<rparr>"
    by (simp add: minimal_fv_def hdr_eval)
  have b: "0x2C \<le> length bad_sig_fv" "py_slice bad_sig_fv 0x28 0x2C \<noteq> EFI_FV_SIGNATURE"
    by (simp_all add: bad_sig_fv_def py_slice_nonneg EFI_FV_SIGNATURE_def)
  from library_signature_at_0x28 [where self = "FirmwareVolume_init minimal_fv"
      and fv = "\<lparr>fv_data = minimal_fv, header_length = 0x465F, fv_length = 0x40,
          block_map = [(0x30, 1)], files = []\<rparr>"] a
  have c: "py_slice minimal_fv 0x28 0x2C = EFI_FV_SIGNATURE"
    by (simp add: FirmwareVolume_init_def)
  from library_signature_at_0x28 [where self = "FirmwareVolume_init bad_sig_fv"] b
  have d: "FirmwareVolume_parse_header (FirmwareVolume_init bad_sig_fv) =
     Inl (ValueError ''Bad FV signature'')"
    by (simp add: FirmwareVolume_init_def)
  from a b c d show ?thesis by simp
qed

text \<open>
  Claim C5, as stated: \<^verbatim>\<open>block_map\<close> holds exactly the entries that precede the first
  \<^verbatim>\<open>(0, 0)\<close> entry, and an input whose block map is the terminator alone fails with
  \<^verbatim>\<open>EmptyBlockMap\<close>.

  On \<open>block_map_fv\<close> the loop stops at the entry \<^verbatim>\<open>(0, 5)\<close> and keeps one entry of
  the three before \<^verbatim>\<open>(0, 0)\<close>; \<open>empty_block_map_fv\<close> is accepted with an empty block
  map.
\<close>

theorem block_map_counterexample:
  "FirmwareVolume_parse_header (FirmwareVolume_init block_map_fv) =
     Inr \<lparr>fv_data = block_map_fv, header_length = 0x465F, fv_length = 0x40,
          block_map = [(2, 0x100)], files = []\<rparr> \<and>
   entries_before_zero_pair (block_entries (drop 0x30 block_map_fv)) =
     [(2, 0x100), (0, 5), (3, 4)] \<and>
   FirmwareVolume_parse_header (FirmwareVolume_init empty_block_map_fv) =
     Inr \<lparr>fv_data = empty_block_map_fv, header_length = 0x465F, fv_length = 0x34,
          block_map = [], files = []\<rparr> \<and>
   entries_before_zero_pair (block_entries (drop 0x30 empty_block_map_fv)) = []"
proof (intro conjI)
  show "FirmwareVolume_parse_header (FirmwareVolume_init block_map_fv) =
     Inr \<lparr>fv_data = block_map_fv, header_length = 0x465F, fv_length = 0x40,
          block_map = [(2, 0x100)], files = []\<rparr>"
    by (simp add: block_map_fv_def hdr_eval)
  show "entries_before_zero_pair (block_entries (drop 0x30 block_map_fv)) =
     [(2, 0x100), (0, 5), (3, 4)]"
    by (simp add: block_map_fv_def entries_before_zero_pair_def)
  show "FirmwareVolume_parse_header (FirmwareVolume_init empty_block_map_fv) =
     Inr \<lparr>fv_data = empty_block_map_fv, header_length = 0x465F, fv_length = 0x34,
          block_map = [], files = []\<rparr>"
    by (simp add: empty_block_map_fv_def hdr_eval)
  show "entries_before_zero_pair (block_entries (drop 0x30 empty_block_map_fv)) = []"
    by (simp add: empty_block_map_fv_def entries_before_zero_pair_def)
qed

text \<open>
  Claim C5, amended. \<^verbatim>\<open>block_map\<close> holds exactly the 4-byte entries that precede the
  first entry with a zero \<^verbatim>\<open>num_blocks\<close> or a zero \<^verbatim>\<open>block_length\<close>, read from offset
  0x30 by the library and from 0x4C bytes after the place of the signature by
  \<^verbatim>\<open>extract_fw.py\<close>; an input with the signature at 0x28 whose first entry has a zero
  field, the terminator alone included, is accepted by the library with an empty block
  map.
\<close>

theorem block_map_stops_at_zero_field:
  "(FirmwareVolume_parse_header (FirmwareVolume_init d) = Inr fv \<longrightarrow>
      block_map fv = entries_before_zero_field (block_entries (drop 0x30 d))) \<and>
   (x_FirmwareVolume_parse_header (x_FirmwareVolume_init d) = Inr xfv \<longrightarrow>
      x_block_map xfv = entries_before_zero_field
        (block_entries (drop (nat (bytes_find d EFI_FV_SIG FVH_OFFSET + 0x4C)) d))) \<and>
   (0x34 \<le> length d \<and> py_slice d 0x28 0x2C = EFI_FV_SIGNATURE \<and>
    (le_int (py_slice d 0x30 0x32) = 0 \<or> le_int (py_slice d 0x32 0x34) = 0) \<longrightarrow>
      FirmwareVolume_parse_header (FirmwareVolume_init d) =
        Inr \<lparr>fv_data = d, header_length = 0x465F, fv_length = le_int (py_slice d 0x20 0x28),
             block_map = [], files = []\<rparr>)"
  using parse_header_block_map x_parse_header_block_map parse_header_zero_first_entry
  by blast

theorem block_map_stops_at_zero_field_witness:
  "FirmwareVolume_parse_header (FirmwareVolume_init block_map_fv) =
     Inr \<lparr>fv_data = block_map_fv, header_length = 0x465F, fv_length = 0x40,
          block_map = [(2, 0x100)], files = []\<rparr> \<and>
   [(2, 0x100)] = entries_before_zero_field (block_entries (drop 0x30 block_map_fv)) \<and>
   x_FirmwareVolume_parse_header (x_FirmwareVolume_init double_sig_fv) =
     Inr \<lparr>x_data = double_sig_fv, x_base = 0, header_len = 0x465F, fv_len = 0x94,
          x_block_map = [(2, 0x100)], x_files = []\<rparr> \<and>
   [(2, 0x100)] = entries_before_zero_field (block_entries
       (drop (nat (bytes_find double_sig_fv EFI_FV_SIG FVH_OFFSET + 0x4C)) double_sig_fv)) \<and>
   0x34 \<le> length empty_block_map_fv \<and>
   py_slice empty_block_map_fv 0x28 0x2C = EFI_FV_SIGNATURE \<and>
   le_int (py_slice empty_block_map_fv 0x30 0x32) = 0 \<and>
   FirmwareVolume_parse_header (FirmwareVolume_init empty_block_map_fv) =
     Inr \<lparr>fv_data = empty_block_map_fv, header_length = 0x465F, fv_length = 0x34,
          block_map = [], files = []\<rparr>"
proof -
  have a: "FirmwareVolume_parse_header (FirmwareVolume_init block_map_fv) =
     Inr \<lparr>fv_data = block_map_fv, header_length = 0x465F, fv_length = 0x40,
          block_map = [(2, 0x100)], files = []\<rparr>"
    by (simp add: block_map_fv_def hdr_eval)
  have b: "x_FirmwareVolume_parse_header (x_FirmwareVolume_init double_sig_fv) =
     Inr \<lparr>x_data = double_sig_fv, x_base = 0, header_len = 0x465F, fv_len = 0x94,
          x_block_map = [(2, 0x100)], x_files = []\<rparr>"
    by (simp add: double_sig_fv_def hdr_eval)
  have c: "0x34 \<le> length empty_block_map_fv"
    "py_slice empty_block_map_fv 0x28 0x2C = EFI_FV_SIGNATURE"
    "le_int (py_slice empty_block_map_fv 0x30 0x32) = 0"
    "le_int (py_slice empty_block_map_fv 0x20 0x28) = 0x34"
    by (simp_all add: empty_block_map_fv_def py_slice_nonneg EFI_FV_SIGNATURE_def)
  from block_map_stops_at_zero_field [where d = block_map_fv
      and fv = "\<lparr>fv_data = block_map_fv, header_length = 0x465F, fv_length = 0x40,
          block_map = [(2, 0x100)], files = []\<rparr>"] a
  have a': "[(2, 0x100)] = entries_before_zero_field (block_entries (drop 0x30 block_map_fv))"
    by simp
  from block_map_stops_at_zero_field [where d = double_sig_fv
      and xfv = "\<lparr>x_data = double_sig_fv, x_base = 0, header_len = 0x465F, fv_len = 0x94,
          x_block_map = [(2, 0x100)], x_files = []\<rparr>"] b
  have b': "[(2, 0x100)] = entries_before_zero_field (block_entries
       (drop (nat (bytes_find double_sig_fv EFI_FV_SIG FVH_OFFSET + 0x4C)) double_sig_fv))"
    by simp
  from block_map_stops_at_zero_field [where d = empty_block_map_fv] c
  have c': "FirmwareVolume_parse_header (FirmwareVolume_init empty_block_map_fv) =
     Inr \<lparr>fv_data = empty_block_map_fv, header_length = 0x465F, fv_length = 0x34,
          block_map = [], files = []\<rparr>"
    by simp
  from a a' b b' c c' show ?thesis by simp
qed

text \<open>
  Claim C9, as stated: an input shorter than 0x2C bytes makes \<^verbatim>\<open>parse_fv\<close> return
  \<^verbatim>\<open>BadSignature\<close> or \<^verbatim>\<open>TruncatedFv\<close>, never an exception outside the taxonomy.

  The library's \<^verbatim>\<open>parse\<close> raises \<^verbatim>\<open>struct.error\<close> on the four bytes \<^verbatim>\<open>_FVH\<close>.
\<close>

theorem short_input_counterexample:
  "FirmwareVolume_parse (\<lambda>_. None) (FirmwareVolume_init EFI_FV_SIGNATURE) =
     Some (Inl StructError) \<and>
   length EFI_FV_SIGNATURE = 4"
  by (simp add: FirmwareVolume_parse_def hdr_eval)

text \<open>
  Claim C9, amended. On every input shorter than 0x2C bytes the library's \<^verbatim>\<open>parse\<close>
  returns, and what it returns is the \<^verbatim>\<open>struct.error\<close> of the header's
  \<^verbatim>\<open>unpack_from\<close>; the header parser of \<^verbatim>\<open>extract_fw.py\<close> fails with
  \<^verbatim>\<open>ValueError("FV header not found")\<close>.
\<close>

theorem short_input_fails:
  assumes "length d < 0x2C"
  shows "FirmwareVolume_parse dec (FirmwareVolume_init d) = Some (Inl StructError) \<and>
         x_FirmwareVolume_parse_header (x_FirmwareVolume_init d) =
           Inl (ValueError ''FV header not found'')"
proof
  have "FirmwareVolume_parse_header (FirmwareVolume_init d) = Inl StructError"
    using assms by (intro parse_header_short) (simp add: FirmwareVolume_init_def)
  then show "FirmwareVolume_parse dec (FirmwareVolume_init d) = Some (Inl StructError)"
    by (simp add: FirmwareVolume_parse_def)
  have "bytes_find d EFI_FV_SIG FVH_OFFSET = - 1"
    using assms by (simp add: bytes_find_def FVH_OFFSET_def)
  then show "x_FirmwareVolume_parse_header (x_FirmwareVolume_init d) =
           Inl (ValueError ''FV header not found'')"
    by (simp add: x_FirmwareVolume_parse_header_def x_FirmwareVolume_init_def)
qed

theorem short_input_fails_witness:
  "length short_fv < 0x2C \<and>
   FirmwareVolume_parse (\<lambda>_. None) (FirmwareVolume_init short_fv) = Some (Inl StructError) \<and>
   x_FirmwareVolume_parse_header (x_FirmwareVolume_init short_fv) =
     Inl (ValueError ''FV header not found'')"
proof -
  have "length short_fv < 0x2C" by (simp add: short_fv_def)
  with short_input_fails [where d = short_fv and dec = "\<lambda>_. None"]
  show ?thesis by simp
qed

end
